theory Spec2Isabelle
  imports Complex_Main
begin

section \<open>Python values as the proxy sees them\<close>

text \<open>
  The proxy of \<^verbatim>\<open>scripts/ollama-api.py\<close> moves JSON between an OpenAI-shaped HTTP
  surface and the Ollama backend. Every value it touches is what \<^verbatim>\<open>json.loads\<close> can
  return or what \<^verbatim>\<open>json.dumps\<close> can print: \<^verbatim>\<open>None\<close>, booleans, unbounded integers,
  floats, strings, lists and dicts with string keys. A dict is kept as an association
  list in insertion order; a Python dict has each key once, and lookup takes the first
  binding.

  A float is either a finite number or one of the three special values that
  \<^verbatim>\<open>json.loads\<close> accepts (\<^verbatim>\<open>Infinity\<close>, \<^verbatim>\<open>-Infinity\<close>, \<^verbatim>\<open>NaN\<close>). The proxy only copies floats
  and tests them for truth; the one place where it could add two of them delegates
  to the environment (see \<open>float_add\<close> below), so no rounding is modelled here.
\<close>

datatype pyfloat = Finite real | PosInf | NegInf | NaN

datatype py =
    PyNone
  | PyBool bool
  | PyInt int
  | PyFloat pyfloat
  | PyStr string
  | PyList "py list"
  | PyDict "(string \<times> py) list"

text \<open>
  The exceptions that can occur. \<open>str_exn\<close> is Python's \<^verbatim>\<open>str(e)\<close>: for a
  \<^verbatim>\<open>KeyError\<close> it is the \<^verbatim>\<open>repr\<close> of the missing key, for the others the message.
  The keys this program indexes with are the literals \<^verbatim>\<open>message\<close>, \<^verbatim>\<open>content\<close>,
  \<^verbatim>\<open>response\<close>, \<^verbatim>\<open>name\<close> and \<^verbatim>\<open>model\<close>, whose \<^verbatim>\<open>repr\<close> is the key between single
  quotes. Message texts of the interpreter's own errors are those of CPython 3.12.
\<close>

datatype exn =
    KeyError string
  | TypeError string
  | AttributeError string
  | OverflowError string
  | JSONDecodeError string
  | OtherError string

definition squote :: "string \<Rightarrow> string" where
  "squote s = [CHR 0x27] @ s @ [CHR 0x27]"

definition dquote :: "string \<Rightarrow> string" where
  "dquote s = [CHR 0x22] @ s @ [CHR 0x22]"

fun str_exn :: "exn \<Rightarrow> string" where
  "str_exn (KeyError k) = squote k"
| "str_exn (TypeError m) = m"
| "str_exn (AttributeError m) = m"
| "str_exn (OverflowError m) = m"
| "str_exn (JSONDecodeError m) = m"
| "str_exn (OtherError m) = m"

fun type_name :: "py \<Rightarrow> string" where
  "type_name PyNone = ''NoneType''"
| "type_name (PyBool b) = ''bool''"
| "type_name (PyInt n) = ''int''"
| "type_name (PyFloat f) = ''float''"
| "type_name (PyStr s) = ''str''"
| "type_name (PyList xs) = ''list''"
| "type_name (PyDict kvs) = ''dict''"

text \<open>Truth value testing, as \<^verbatim>\<open>if x:\<close> does it.\<close>

fun py_truthy :: "py \<Rightarrow> bool" where
  "py_truthy PyNone = False"
| "py_truthy (PyBool b) = b"
| "py_truthy (PyInt n) = (n \<noteq> 0)"
| "py_truthy (PyFloat f) = (f \<noteq> Finite 0)"
| "py_truthy (PyStr s) = (s \<noteq> [])"
| "py_truthy (PyList xs) = (xs \<noteq> [])"
| "py_truthy (PyDict kvs) = (kvs \<noteq> [])"

text \<open>Subscription \<^verbatim>\<open>x[key]\<close> with a string key.\<close>

fun py_getitem :: "py \<Rightarrow> string \<Rightarrow> exn + py" where
  "py_getitem (PyDict kvs) k =
     (case map_of kvs k of None \<Rightarrow> Inl (KeyError k) | Some v \<Rightarrow> Inr v)"
| "py_getitem (PyList xs) k =
     Inl (TypeError ''list indices must be integers or slices, not str'')"
| "py_getitem (PyStr s) k =
     Inl (TypeError (''string indices must be integers, not '' @ squote ''str''))"
| "py_getitem v k =
     Inl (TypeError (squote (type_name v) @ '' object is not subscriptable''))"

text \<open>The method call \<^verbatim>\<open>x.get(key, default)\<close>: only a dict has it.\<close>

fun py_get :: "py \<Rightarrow> string \<Rightarrow> py \<Rightarrow> exn + py" where
  "py_get (PyDict kvs) k d = (case map_of kvs k of None \<Rightarrow> Inr d | Some v \<Rightarrow> Inr v)"
| "py_get v k d =
     Inl (AttributeError (squote (type_name v) @ '' object has no attribute '' @ squote ''get''))"

text \<open>
  The membership test \<^verbatim>\<open>key in x\<close> with a string key: a key of a dict, an element
  of a list, a substring of a string; anything else is not iterable.
\<close>

fun is_substring :: "string \<Rightarrow> string \<Rightarrow> bool" where
  "is_substring k [] = (k = [])"
| "is_substring k (c # s) = (take (length k) (c # s) = k \<or> is_substring k s)"

fun py_contains :: "string \<Rightarrow> py \<Rightarrow> exn + bool" where
  "py_contains k (PyDict kvs) = Inr (map_of kvs k \<noteq> None)"
| "py_contains k (PyList xs) = Inr (PyStr k \<in> set xs)"
| "py_contains k (PyStr s) = Inr (is_substring k s)"
| "py_contains k v =
     Inl (TypeError (''argument of type '' @ squote (type_name v) @ '' is not iterable''))"

text \<open>
  Iteration \<^verbatim>\<open>for x in v\<close>: the elements of a list, the keys of a dict, the
  one-character strings of a string.
\<close>

fun py_iter :: "py \<Rightarrow> exn + py list" where
  "py_iter (PyList xs) = Inr xs"
| "py_iter (PyDict kvs) = Inr (map (\<lambda>kv. PyStr (fst kv)) kvs)"
| "py_iter (PyStr s) = Inr (map (\<lambda>c. PyStr [c]) s)"
| "py_iter v = Inl (TypeError (squote (type_name v) @ '' object is not iterable''))"

text \<open>Assignment \<^verbatim>\<open>d[key] = v\<close> on a dict: replace in place, or append a new key.\<close>

fun dict_set :: "(string \<times> py) list \<Rightarrow> string \<Rightarrow> py \<Rightarrow> (string \<times> py) list" where
  "dict_set [] k v = [(k, v)]"
| "dict_set ((k', v') # kvs) k v =
     (if k' = k then (k, v) # kvs else (k', v') # dict_set kvs k v)"

section \<open>The environment: libraries, clock and backend\<close>

text \<open>
  What the proxy calls but does not define is a parameter of the model:
  \<^item> \<open>json_loads\<close> is \<^verbatim>\<open>json.loads\<close>; \<open>Inl (JSONDecodeError m)\<close> is the exception of
    that name;
  \<^item> \<open>json_dumps\<close> is \<^verbatim>\<open>json.dumps\<close>, total on the values above;
  \<^item> \<open>clock n\<close> is what \<^verbatim>\<open>int(time.time())\<close> returns at the \<open>n\<close>-th reading;
  \<^item> \<open>uuid4_hex n\<close> is \<^verbatim>\<open>uuid.uuid4().hex\<close> at the \<open>n\<close>-th call;
  \<^item> \<open>backend n rq\<close> is the outcome of the \<open>n\<close>-th request sent to Ollama: the call
    raises, or a response arrives with its status code and with what
    \<^verbatim>\<open>response.json()\<close> gives when it is called;
  \<^item> \<open>float_add\<close> and \<open>float_of_int\<close> are the float operations behind \<^verbatim>\<open>+\<close>;
  \<^item> \<open>OLLAMA_HOST\<close> is the module constant read from the process environment.
\<close>

datatype request = GET string | POST string py

datatype reply = Failed exn | Response nat "exn + py"

record env =
  OLLAMA_HOST :: string
  json_loads :: "string \<Rightarrow> exn + py"
  json_dumps :: "py \<Rightarrow> string"
  clock :: "nat \<Rightarrow> int"
  uuid4_hex :: "nat \<Rightarrow> string"
  backend :: "nat \<Rightarrow> request \<Rightarrow> reply"
  float_add :: "pyfloat \<Rightarrow> pyfloat \<Rightarrow> pyfloat"
  float_of_int :: "int \<Rightarrow> exn + pyfloat"

text \<open>
  The mutable world: how often the clock was read, how many uuids were minted, and
  the requests sent to the backend so far, oldest first.
\<close>

record world =
  clock_reads :: nat
  uuids_minted :: nat
  sent :: "request list"

definition time_now :: "env \<Rightarrow> world \<Rightarrow> int \<times> world" where
  "time_now E w = (clock E (clock_reads w), w\<lparr>clock_reads := Suc (clock_reads w)\<rparr>)"

definition new_uuid_hex :: "env \<Rightarrow> world \<Rightarrow> string \<times> world" where
  "new_uuid_hex E w = (uuid4_hex E (uuids_minted w), w\<lparr>uuids_minted := Suc (uuids_minted w)\<rparr>)"

definition send :: "env \<Rightarrow> world \<Rightarrow> request \<Rightarrow> reply \<times> world" where
  "send E w rq = (backend E (length (sent w)) rq, w\<lparr>sent := sent w @ [rq]\<rparr>)"

text \<open>
  The operator \<^verbatim>\<open>a + b\<close>. Booleans count as the integers 0 and 1; an integer meeting
  a float is converted first, which overflows for a huge integer; strings and lists
  concatenate with their own kind.
\<close>

fun as_int :: "py \<Rightarrow> int option" where
  "as_int (PyBool b) = Some (if b then 1 else 0)"
| "as_int (PyInt n) = Some n"
| "as_int v = None"

definition add_type_error :: "py \<Rightarrow> py \<Rightarrow> exn" where
  "add_type_error a b =
     (case a of
        PyStr s \<Rightarrow> TypeError (''can only concatenate str (not '' @ dquote (type_name b) @ '') to str'')
      | PyList xs \<Rightarrow> TypeError (''can only concatenate list (not '' @ dquote (type_name b) @ '') to list'')
      | _ \<Rightarrow> TypeError (''unsupported operand type(s) for +: '' @ squote (type_name a)
               @ '' and '' @ squote (type_name b)))"

definition py_add :: "env \<Rightarrow> py \<Rightarrow> py \<Rightarrow> exn + py" where
  "py_add E a b =
     (case (as_int a, as_int b) of
        (Some m, Some n) \<Rightarrow> Inr (PyInt (m + n))
      | (Some m, None) \<Rightarrow>
          (case b of
             PyFloat g \<Rightarrow> (case float_of_int E m of Inl e \<Rightarrow> Inl e
                          | Inr f \<Rightarrow> Inr (PyFloat (float_add E f g)))
           | _ \<Rightarrow> Inl (add_type_error a b))
      | (None, Some n) \<Rightarrow>
          (case a of
             PyFloat f \<Rightarrow> (case float_of_int E n of Inl e \<Rightarrow> Inl e
                          | Inr g \<Rightarrow> Inr (PyFloat (float_add E f g)))
           | _ \<Rightarrow> Inl (add_type_error a b))
      | (None, None) \<Rightarrow>
          (case (a, b) of
             (PyFloat f, PyFloat g) \<Rightarrow> Inr (PyFloat (float_add E f g))
           | (PyStr s, PyStr t) \<Rightarrow> Inr (PyStr (s @ t))
           | (PyList xs, PyList ys) \<Rightarrow> Inr (PyList (xs @ ys))
           | _ \<Rightarrow> Inl (add_type_error a b)))"

section \<open>Request models\<close>

text \<open>
  The pydantic models of the source. A request reaches a handler only after pydantic
  has validated it, so \<open>max_tokens\<close> is an integer or absent.
\<close>

record Message =
  role :: string
  content :: string

record ChatCompletionRequest =
  model :: string
  messages :: "Message list"
  temperature :: pyfloat
  max_tokens :: "int option"
  stream :: bool

record CompletionRequest =
  model :: string
  prompt :: string
  temperature :: pyfloat
  max_tokens :: "int option"
  stream :: bool

text \<open>
  What a handler hands back to FastAPI: a value to serialise (a handler that falls off
  its end returns \<^verbatim>\<open>None\<close>), an \<^verbatim>\<open>HTTPException\<close> with status code and detail, or a
  \<^verbatim>\<open>StreamingResponse\<close> around a generator that has not started yet.
\<close>

datatype generator = ChatStream py | CompletionStream py

datatype http_result =
    Return py
  | HTTPException nat string
  | StreamingResponse generator

section \<open>Request translation\<close>

text \<open>
  \<^verbatim>\<open>chat_completions\<close>, lines 91 to 103, and \<^verbatim>\<open>completions\<close>, lines 192 to 202: the
  dict literal, then \<^verbatim>\<open>if request.max_tokens: ollama_request["options"]["num_predict"]
  = request.max_tokens\<close>. The test is Python truth on an optional integer: absent and
  0 are false. The assignment mutates the options dict that \<open>ollama_request\<close> holds.
\<close>

definition set_num_predict :: "int option \<Rightarrow> (string \<times> py) list \<Rightarrow> (string \<times> py) list" where
  "set_num_predict mt options =
     (case mt of
        None \<Rightarrow> options
      | Some n \<Rightarrow> if n \<noteq> 0 then dict_set options ''num_predict'' (PyInt n) else options)"

definition chat_ollama_request :: "ChatCompletionRequest \<Rightarrow> py" where
  "chat_ollama_request request =
     (let ollama_messages =
            map (\<lambda>msg. PyDict [(''role'', PyStr (role msg)), (''content'', PyStr (content msg))])
                (messages request)
      in PyDict
           [(''model'', PyStr (ChatCompletionRequest.model request)),
            (''messages'', PyList ollama_messages),
            (''stream'', PyBool (ChatCompletionRequest.stream request)),
            (''options'',
               PyDict (set_num_predict (ChatCompletionRequest.max_tokens request)
                 [(''temperature'', PyFloat (ChatCompletionRequest.temperature request))]))])"

definition completion_ollama_request :: "CompletionRequest \<Rightarrow> py" where
  "completion_ollama_request request =
     PyDict
       [(''model'', PyStr (CompletionRequest.model request)),
        (''prompt'', PyStr (prompt request)),
        (''stream'', PyBool (CompletionRequest.stream request)),
        (''options'',
           PyDict (set_num_predict (CompletionRequest.max_tokens request)
             [(''temperature'', PyFloat (CompletionRequest.temperature request))]))]"

section \<open>Non-streaming response translation\<close>

text \<open>
  An expression that raises aborts the expressions after it: \<open>bind_exn\<close> sequences
  two steps of which the first may raise. \<open>or_500\<close> is the handlers' clause
  \<^verbatim>\<open>except Exception as e: raise HTTPException(status_code=500, detail=str(e))\<close>.
\<close>

definition bind_exn :: "exn + 'a \<Rightarrow> ('a \<Rightarrow> exn + 'b) \<Rightarrow> exn + 'b" where
  "bind_exn r f = (case r of Inl e \<Rightarrow> Inl e | Inr x \<Rightarrow> f x)"

definition or_500 :: "exn + py \<Rightarrow> http_result" where
  "or_500 r = (case r of Inl e \<Rightarrow> HTTPException 500 (str_exn e) | Inr v \<Rightarrow> Return v)"

text \<open>
  The dict literal that \<^verbatim>\<open>chat_completions\<close> returns (lines 120 to 138), evaluated in
  source order once the id and the timestamp are known: \<^verbatim>\<open>ollama_response["message"]
  ["content"]\<close> raises when a key is missing or the value cannot be subscripted; the
  counters are read with \<^verbatim>\<open>.get(..., 0)\<close> and added with \<^verbatim>\<open>+\<close>.
\<close>

definition chat_response :: "env \<Rightarrow> string \<Rightarrow> int \<Rightarrow> string \<Rightarrow> py \<Rightarrow> exn + py" where
  "chat_response E request_id created model_name ollama_response =
     bind_exn (py_getitem ollama_response ''message'') (\<lambda>message.
     bind_exn (py_getitem message ''content'') (\<lambda>content_value.
     bind_exn (py_get ollama_response ''prompt_eval_count'' (PyInt 0)) (\<lambda>prompt_tokens.
     bind_exn (py_get ollama_response ''eval_count'' (PyInt 0)) (\<lambda>completion_tokens.
     bind_exn (py_add E prompt_tokens completion_tokens) (\<lambda>total_tokens.
     Inr (PyDict
       [(''id'', PyStr request_id),
        (''object'', PyStr ''chat.completion''),
        (''created'', PyInt created),
        (''model'', PyStr model_name),
        (''choices'', PyList [PyDict
           [(''index'', PyInt 0),
            (''message'', PyDict [(''role'', PyStr ''assistant''), (''content'', content_value)]),
            (''finish_reason'', PyStr ''stop'')]]),
        (''usage'', PyDict
           [(''prompt_tokens'', prompt_tokens),
            (''completion_tokens'', completion_tokens),
            (''total_tokens'', total_tokens)])]))))))"

text \<open>The same for \<^verbatim>\<open>completions\<close>, lines 218 to 233.\<close>

definition completion_response :: "env \<Rightarrow> string \<Rightarrow> int \<Rightarrow> string \<Rightarrow> py \<Rightarrow> exn + py" where
  "completion_response E request_id created model_name ollama_response =
     bind_exn (py_getitem ollama_response ''response'') (\<lambda>text.
     bind_exn (py_get ollama_response ''prompt_eval_count'' (PyInt 0)) (\<lambda>prompt_tokens.
     bind_exn (py_get ollama_response ''eval_count'' (PyInt 0)) (\<lambda>completion_tokens.
     bind_exn (py_add E prompt_tokens completion_tokens) (\<lambda>total_tokens.
     Inr (PyDict
       [(''id'', PyStr request_id),
        (''object'', PyStr ''text_completion''),
        (''created'', PyInt created),
        (''model'', PyStr model_name),
        (''choices'', PyList [PyDict
           [(''text'', text),
            (''index'', PyInt 0),
            (''finish_reason'', PyStr ''stop'')]]),
        (''usage'', PyDict
           [(''prompt_tokens'', prompt_tokens),
            (''completion_tokens'', completion_tokens),
            (''total_tokens'', total_tokens)])])))))"

section \<open>The handlers\<close>

text \<open>
  \<^verbatim>\<open>health\<close>, lines 58 to 66. The \<^verbatim>\<open>try\<close> block returns only when the status is 200;
  with any other status the function reaches its end and returns \<^verbatim>\<open>None\<close>. The
  \<^verbatim>\<open>except\<close> clause turns an exception of the request into a 503.
\<close>

definition health :: "env \<Rightarrow> world \<Rightarrow> http_result \<times> world" where
  "health E w =
     (let (rep, w1) = send E w (GET (OLLAMA_HOST E @ ''/api/tags'')) in
      case rep of
        Failed e \<Rightarrow> (HTTPException 503 (''Ollama not available: '' @ str_exn e), w1)
      | Response status body \<Rightarrow>
          if status = 200
          then (Return (PyDict [(''status'', PyStr ''healthy''), (''ollama'', PyStr ''connected'')]), w1)
          else (Return PyNone, w1))"

text \<open>
  \<^verbatim>\<open>list_models\<close>, lines 68 to 86. The list comprehension reads \<^verbatim>\<open>model["name"]\<close> and
  then the clock for each element, in order; the first failure abandons the list.
\<close>

fun model_entries :: "env \<Rightarrow> world \<Rightarrow> py list \<Rightarrow> (exn + py list) \<times> world" where
  "model_entries E w [] = (Inr [], w)"
| "model_entries E w (m # rest) =
     (case py_getitem m ''name'' of
        Inl e \<Rightarrow> (Inl e, w)
      | Inr name \<Rightarrow>
          (let (created, w1) = time_now E w;
               (r, w2) = model_entries E w1 rest
           in (bind_exn r (\<lambda>entries. Inr (PyDict
                  [(''id'', name),
                   (''object'', PyStr ''model''),
                   (''created'', PyInt created),
                   (''owned_by'', PyStr ''ollama'')] # entries)), w2)))"

definition models_reply :: "env \<Rightarrow> world \<Rightarrow> exn + py \<Rightarrow> http_result \<times> world" where
  "models_reply E w body =
     (case bind_exn body (\<lambda>parsed.
           bind_exn (py_get parsed ''models'' (PyList [])) py_iter) of
        Inl e \<Rightarrow> (HTTPException 500 (str_exn e), w)
      | Inr ollama_models \<Rightarrow>
          (let (r, w1) = model_entries E w ollama_models
           in (or_500 (bind_exn r (\<lambda>models.
                 Inr (PyDict [(''object'', PyStr ''list''), (''data'', PyList models)]))), w1)))"

definition list_models :: "env \<Rightarrow> world \<Rightarrow> http_result \<times> world" where
  "list_models E w =
     (let (rep, w1) = send E w (GET (OLLAMA_HOST E @ ''/api/tags'')) in
      case rep of
        Failed e \<Rightarrow> (HTTPException 500 (str_exn e), w1)
      | Response status body \<Rightarrow>
          if status = 200 then models_reply E w1 body else (Return PyNone, w1))"

text \<open>
  \<^verbatim>\<open>chat_completions\<close>, lines 88 to 140. With \<^verbatim>\<open>stream\<close> set the handler returns the
  generator unstarted. Otherwise it posts once, reads \<^verbatim>\<open>response.json()\<close> whatever the
  status, mints the id, reads the clock and builds the reply; any exception on the
  way becomes a 500 whose detail is \<^verbatim>\<open>str(e)\<close>.
\<close>

definition chat_reply :: "env \<Rightarrow> world \<Rightarrow> string \<Rightarrow> exn + py \<Rightarrow> http_result \<times> world" where
  "chat_reply E w model_name body =
     (case body of
        Inl e \<Rightarrow> (HTTPException 500 (str_exn e), w)
      | Inr ollama_response \<Rightarrow>
          (let (hex, w1) = new_uuid_hex E w;
               (created, w2) = time_now E w1
           in (or_500 (chat_response E (''chatcmpl-'' @ take 8 hex) created model_name
                         ollama_response), w2)))"

definition chat_completions :: "env \<Rightarrow> world \<Rightarrow> ChatCompletionRequest \<Rightarrow> http_result \<times> world" where
  "chat_completions E w request =
     (let ollama_request = chat_ollama_request request in
      if ChatCompletionRequest.stream request
      then (StreamingResponse (ChatStream ollama_request), w)
      else
        (let (rep, w1) = send E w (POST (OLLAMA_HOST E @ ''/api/chat'') ollama_request) in
         case rep of
           Failed e \<Rightarrow> (HTTPException 500 (str_exn e), w1)
         | Response status body \<Rightarrow>
             chat_reply E w1 (ChatCompletionRequest.model request) body))"

text \<open>\<^verbatim>\<open>completions\<close>, lines 190 to 235, has the same shape.\<close>

definition completion_reply :: "env \<Rightarrow> world \<Rightarrow> string \<Rightarrow> exn + py \<Rightarrow> http_result \<times> world" where
  "completion_reply E w model_name body =
     (case body of
        Inl e \<Rightarrow> (HTTPException 500 (str_exn e), w)
      | Inr ollama_response \<Rightarrow>
          (let (hex, w1) = new_uuid_hex E w;
               (created, w2) = time_now E w1
           in (or_500 (completion_response E (''cmpl-'' @ take 8 hex) created model_name
                         ollama_response), w2)))"

definition completions :: "env \<Rightarrow> world \<Rightarrow> CompletionRequest \<Rightarrow> http_result \<times> world" where
  "completions E w request =
     (let ollama_request = completion_ollama_request request in
      if CompletionRequest.stream request
      then (StreamingResponse (CompletionStream ollama_request), w)
      else
        (let (rep, w1) = send E w (POST (OLLAMA_HOST E @ ''/api/generate'') ollama_request) in
         case rep of
           Failed e \<Rightarrow> (HTTPException 500 (str_exn e), w1)
         | Response status body \<Rightarrow>
             completion_reply E w1 (CompletionRequest.model request) body))"

section \<open>Streaming response translation\<close>

text \<open>
  A generator is modelled by what it has yielded, how it ended and the world it
  leaves: the frames in order, \<open>None\<close> for a normal end or the exception that escaped
  it, and the world. Frames yielded before an exception have already gone out. The
  lines of the backend's streamed body, as \<^verbatim>\<open>response.aiter_lines()\<close> delivers them, are
  an argument of the generator; the request that opens the stream is recorded in the
  world.

  \<open>sse_frame\<close> is the f-string \<^verbatim>\<open>f"data: {json.dumps(chunk)}\n\n"\<close> and \<open>done_frame\<close>
  the literal \<^verbatim>\<open>"data: [DONE]\n\n"\<close>.
\<close>

type_synonym gen_result = "string list \<times> exn option \<times> world"

definition sse_frame :: "env \<Rightarrow> py \<Rightarrow> string" where
  "sse_frame E chunk = ''data: '' @ json_dumps E chunk @ [CHR 0x0A, CHR 0x0A]"

definition done_frame :: string where
  "done_frame = ''data: [DONE]'' @ [CHR 0x0A, CHR 0x0A]"

text \<open>
  Running one piece of generator code after another: the second runs from the world
  the first left, unless the first raised.
\<close>

definition then_gen :: "gen_result \<Rightarrow> (world \<Rightarrow> gen_result) \<Rightarrow> gen_result" where
  "then_gen r f =
     (case r of
        (fs, Some e, w1) \<Rightarrow> (fs, Some e, w1)
      | (fs, None, w1) \<Rightarrow> (let (gs, x, w2) = f w1 in (fs @ gs, x, w2)))"

text \<open>
  The clause \<^verbatim>\<open>except json.JSONDecodeError: continue\<close> around the body of the loop:
  that exception ends the body quietly, every other one escapes.
\<close>

definition except_JSONDecodeError :: "gen_result \<Rightarrow> gen_result" where
  "except_JSONDecodeError r =
     (case r of
        (fs, Some (JSONDecodeError m), w1) \<Rightarrow> (fs, None, w1)
      | _ \<Rightarrow> r)"

text \<open>
  The loop \<^verbatim>\<open>async for line in response.aiter_lines()\<close> of both generators, over the
  lines the backend delivers. Nothing in the body leaves the loop, so it ends with
  the lines or with an escaping exception.
\<close>

fun for_each_line :: "(world \<Rightarrow> string \<Rightarrow> gen_result) \<Rightarrow> world \<Rightarrow> string list \<Rightarrow> gen_result" where
  "for_each_line body w [] = ([], None, w)"
| "for_each_line body w (line # rest) =
     then_gen (body w line) (\<lambda>w1. for_each_line body w1 rest)"

text \<open>
  \<^verbatim>\<open>stream_chat_response\<close>, lines 142 to 188. The two chunk literals read the clock
  and then \<^verbatim>\<open>ollama_request["model"]\<close>; the content chunk is yielded as one frame, the
  final chunk as a frame followed by the sentinel. Both sit under
  \<^verbatim>\<open>if "message" in ollama_chunk\<close>.
\<close>

definition chat_content_chunk :: "string \<Rightarrow> int \<Rightarrow> py \<Rightarrow> py \<Rightarrow> py" where
  "chat_content_chunk request_id created model_value content_value =
     PyDict
       [(''id'', PyStr request_id),
        (''object'', PyStr ''chat.completion.chunk''),
        (''created'', PyInt created),
        (''model'', model_value),
        (''choices'', PyList [PyDict
           [(''index'', PyInt 0),
            (''delta'', PyDict [(''content'', content_value)]),
            (''finish_reason'', PyNone)]])]"

definition chat_final_chunk :: "string \<Rightarrow> int \<Rightarrow> py \<Rightarrow> py" where
  "chat_final_chunk request_id created model_value =
     PyDict
       [(''id'', PyStr request_id),
        (''object'', PyStr ''chat.completion.chunk''),
        (''created'', PyInt created),
        (''model'', model_value),
        (''choices'', PyList [PyDict
           [(''index'', PyInt 0),
            (''delta'', PyDict []),
            (''finish_reason'', PyStr ''stop'')]])]"

definition yield_chat_content :: "env \<Rightarrow> string \<Rightarrow> py \<Rightarrow> py \<Rightarrow> world \<Rightarrow> gen_result" where
  "yield_chat_content E request_id ollama_request content_value w =
     (let (created, w1) = time_now E w in
      case py_getitem ollama_request ''model'' of
        Inl e \<Rightarrow> ([], Some e, w1)
      | Inr model_value \<Rightarrow>
          ([sse_frame E (chat_content_chunk request_id created model_value content_value)],
           None, w1))"

definition yield_chat_final :: "env \<Rightarrow> string \<Rightarrow> py \<Rightarrow> world \<Rightarrow> gen_result" where
  "yield_chat_final E request_id ollama_request w =
     (let (created, w1) = time_now E w in
      case py_getitem ollama_request ''model'' of
        Inl e \<Rightarrow> ([], Some e, w1)
      | Inr model_value \<Rightarrow>
          ([sse_frame E (chat_final_chunk request_id created model_value), done_frame],
           None, w1))"

definition raise_gen :: "exn \<Rightarrow> world \<Rightarrow> gen_result" where
  "raise_gen e w = ([], Some e, w)"

definition pass_gen :: "world \<Rightarrow> gen_result" where
  "pass_gen w = ([], None, w)"

definition chat_chunk_frames :: "env \<Rightarrow> string \<Rightarrow> py \<Rightarrow> world \<Rightarrow> py \<Rightarrow> gen_result" where
  "chat_chunk_frames E request_id ollama_request w ollama_chunk =
     (case py_contains ''message'' ollama_chunk of
        Inl e \<Rightarrow> raise_gen e w
      | Inr has_message \<Rightarrow>
          if has_message then
            (case bind_exn (py_getitem ollama_chunk ''message'')
                    (\<lambda>message. py_get message ''content'' (PyStr [])) of
               Inl e \<Rightarrow> raise_gen e w
             | Inr content_value \<Rightarrow>
                 then_gen
                   (if py_truthy content_value
                    then yield_chat_content E request_id ollama_request content_value w
                    else pass_gen w)
                   (\<lambda>w1. case py_get ollama_chunk ''done'' (PyBool False) of
                            Inl e \<Rightarrow> raise_gen e w1
                          | Inr done_value \<Rightarrow>
                              if py_truthy done_value
                              then yield_chat_final E request_id ollama_request w1
                              else pass_gen w1))
          else pass_gen w)"

definition chat_line :: "env \<Rightarrow> string \<Rightarrow> py \<Rightarrow> world \<Rightarrow> string \<Rightarrow> gen_result" where
  "chat_line E request_id ollama_request w line =
     (if line \<noteq> []
      then except_JSONDecodeError
             (case json_loads E line of
                Inl e \<Rightarrow> raise_gen e w
              | Inr ollama_chunk \<Rightarrow> chat_chunk_frames E request_id ollama_request w ollama_chunk)
      else pass_gen w)"

definition stream_chat_response :: "env \<Rightarrow> world \<Rightarrow> py \<Rightarrow> string list \<Rightarrow> gen_result" where
  "stream_chat_response E w ollama_request lines =
     (let (hex, w1) = new_uuid_hex E w;
          request_id = ''chatcmpl-'' @ take 8 hex;
          w2 = w1\<lparr>sent := sent w1 @ [POST (OLLAMA_HOST E @ ''/api/chat'') ollama_request]\<rparr>
      in for_each_line (chat_line E request_id ollama_request) w2 lines)"

text \<open>
  \<^verbatim>\<open>stream_completion_response\<close>, lines 237 to 268. Here the test of \<^verbatim>\<open>done\<close> is not
  under any other test.
\<close>

definition completion_chunk :: "string \<Rightarrow> int \<Rightarrow> py \<Rightarrow> py \<Rightarrow> py" where
  "completion_chunk request_id created model_value text =
     PyDict
       [(''id'', PyStr request_id),
        (''object'', PyStr ''text_completion''),
        (''created'', PyInt created),
        (''model'', model_value),
        (''choices'', PyList [PyDict
           [(''text'', text),
            (''index'', PyInt 0),
            (''finish_reason'', PyNone)]])]"

definition yield_completion_text :: "env \<Rightarrow> string \<Rightarrow> py \<Rightarrow> py \<Rightarrow> world \<Rightarrow> gen_result" where
  "yield_completion_text E request_id ollama_request text w =
     (let (created, w1) = time_now E w in
      case py_getitem ollama_request ''model'' of
        Inl e \<Rightarrow> ([], Some e, w1)
      | Inr model_value \<Rightarrow>
          ([sse_frame E (completion_chunk request_id created model_value text)], None, w1))"

definition completion_chunk_frames :: "env \<Rightarrow> string \<Rightarrow> py \<Rightarrow> world \<Rightarrow> py \<Rightarrow> gen_result" where
  "completion_chunk_frames E request_id ollama_request w ollama_chunk =
     (case py_get ollama_chunk ''response'' (PyStr []) of
        Inl e \<Rightarrow> raise_gen e w
      | Inr text \<Rightarrow>
          then_gen
            (if py_truthy text
             then yield_completion_text E request_id ollama_request text w
             else pass_gen w)
            (\<lambda>w1. case py_get ollama_chunk ''done'' (PyBool False) of
                     Inl e \<Rightarrow> raise_gen e w1
                   | Inr done_value \<Rightarrow>
                       if py_truthy done_value then ([done_frame], None, w1) else pass_gen w1))"

definition completion_line :: "env \<Rightarrow> string \<Rightarrow> py \<Rightarrow> world \<Rightarrow> string \<Rightarrow> gen_result" where
  "completion_line E request_id ollama_request w line =
     (if line \<noteq> []
      then except_JSONDecodeError
             (case json_loads E line of
                Inl e \<Rightarrow> raise_gen e w
              | Inr ollama_chunk \<Rightarrow>
                  completion_chunk_frames E request_id ollama_request w ollama_chunk)
      else pass_gen w)"

definition stream_completion_response :: "env \<Rightarrow> world \<Rightarrow> py \<Rightarrow> string list \<Rightarrow> gen_result" where
  "stream_completion_response E w ollama_request lines =
     (let (hex, w1) = new_uuid_hex E w;
          request_id = ''cmpl-'' @ take 8 hex;
          w2 = w1\<lparr>sent := sent w1 @ [POST (OLLAMA_HOST E @ ''/api/generate'') ollama_request]\<rparr>
      in for_each_line (completion_line E request_id ollama_request) w2 lines)"

section \<open>Reading a value by path\<close>

text \<open>
  \<open>py_at v path\<close> follows dict keys and list positions into a value, as in
  \<^verbatim>\<open>r["choices"][0]["message"]["content"]\<close>; \<open>None\<close> when a key or position is absent.
\<close>

datatype key = K string | I nat

fun py_at :: "py \<Rightarrow> key list \<Rightarrow> py option" where
  "py_at v [] = Some v"
| "py_at (PyDict kvs) (K k # ks) = (case map_of kvs k of None \<Rightarrow> None | Some v \<Rightarrow> py_at v ks)"
| "py_at (PyList xs) (I i # ks) = (if i < length xs then py_at (xs ! i) ks else None)"
| "py_at v (k # ks) = None"

text \<open>
  A counter of the backend's reply as \<^verbatim>\<open>.get(name, 0)\<close> reads it: the value under the
  key, or 0 when the key is missing.
\<close>

definition counter :: "py \<Rightarrow> string \<Rightarrow> py" where
  "counter body k = (case py_at body [K k] of None \<Rightarrow> PyInt 0 | Some v \<Rightarrow> v)"

section \<open>What the ordering guarantee compares against\<close>

text \<open>
  \<open>frames_per_line body w lines\<close> lists, line by line in input order, the frames that
  the loop body yields for that line, from the world that the lines before it have
  left; it stops with the line whose exception escapes.
\<close>

fun frames_per_line :: "(world \<Rightarrow> string \<Rightarrow> gen_result) \<Rightarrow> world \<Rightarrow> string list \<Rightarrow> string list list" where
  "frames_per_line body w [] = []"
| "frames_per_line body w (line # rest) =
     (case body w line of
        (fs, Some e, w1) \<Rightarrow> [fs]
      | (fs, None, w1) \<Rightarrow> fs # frames_per_line body w1 rest)"

definition hex_digits :: "char set" where
  "hex_digits = set ''0123456789abcdef''"

section \<open>A concrete environment\<close>

text \<open>
  An environment to run the model in: a parser that knows a handful of lines and
  rejects every other one, a printer that shows of a chunk only its first choice, a
  clock that advances by one second per reading, one fixed uuid, exact float
  addition, and a backend that lists two models and answers every completion with
  the reply of the specification's example.
\<close>

definition line_hi :: string where
  "line_hi = ''{'' @ dquote ''message'' @ '':{'' @ dquote ''content'' @ '':'' @ dquote ''Hi'' @ ''}}''"

definition line_done :: string where
  "line_done = ''{'' @ dquote ''done'' @ '':true,'' @ dquote ''message'' @ '':{''
     @ dquote ''content'' @ '':'' @ dquote [] @ ''}}''"

definition line_done_only :: string where
  "line_done_only = ''{'' @ dquote ''done'' @ '':true}''"

definition line_text :: string where
  "line_text = ''{'' @ dquote ''response'' @ '':'' @ dquote ''Hi'' @ ''}''"

definition line_text_done :: string where
  "line_text_done = ''{'' @ dquote ''done'' @ '':true,'' @ dquote ''response'' @ '':'' @ dquote [] @ ''}''"

definition test_loads :: "string \<Rightarrow> exn + py" where
  "test_loads line =
     (if line = line_hi then
        Inr (PyDict [(''message'', PyDict [(''content'', PyStr ''Hi'')])])
      else if line = line_done then
        Inr (PyDict [(''done'', PyBool True), (''message'', PyDict [(''content'', PyStr [])])])
      else if line = line_done_only then
        Inr (PyDict [(''done'', PyBool True)])
      else if line = line_text then
        Inr (PyDict [(''response'', PyStr ''Hi'')])
      else if line = line_text_done then
        Inr (PyDict [(''done'', PyBool True), (''response'', PyStr [])])
      else Inl (JSONDecodeError ''Expecting value: line 1 column 1 (char 0)''))"

definition test_dumps :: "py \<Rightarrow> string" where
  "test_dumps chunk =
     (case py_at chunk [K ''choices'', I 0, K ''finish_reason''] of
        Some (PyStr reason) \<Rightarrow> ''{finish_reason: '' @ reason @ ''}''
      | _ \<Rightarrow>
          (case py_at chunk [K ''choices'', I 0, K ''delta'', K ''content''] of
             Some (PyStr s) \<Rightarrow> ''{content: '' @ s @ ''}''
           | _ \<Rightarrow>
               (case py_at chunk [K ''choices'', I 0, K ''text''] of
                  Some (PyStr s) \<Rightarrow> ''{text: '' @ s @ ''}''
                | _ \<Rightarrow> ''{}'')))"

definition test_float_add :: "pyfloat \<Rightarrow> pyfloat \<Rightarrow> pyfloat" where
  "test_float_add f g = (case (f, g) of (Finite a, Finite b) \<Rightarrow> Finite (a + b) | _ \<Rightarrow> NaN)"

definition example_chat_body :: py where
  "example_chat_body =
     PyDict [(''message'', PyDict [(''content'', PyStr ''hi'')]),
             (''prompt_eval_count'', PyInt 3), (''eval_count'', PyInt 5)]"

definition example_completion_body :: py where
  "example_completion_body =
     PyDict [(''response'', PyStr ''hi''),
             (''prompt_eval_count'', PyInt 3), (''eval_count'', PyInt 5)]"

definition example_tags_body :: py where
  "example_tags_body =
     PyDict [(''models'',
        PyList [PyDict [(''name'', PyStr ''qwen2.5:7b''), (''size'', PyInt 4683087332)],
                PyDict [(''name'', PyStr ''llama3:8b'')]])]"

definition test_backend :: "nat \<Rightarrow> request \<Rightarrow> reply" where
  "test_backend n rq =
     (case rq of
        GET url \<Rightarrow> Response 200 (Inr example_tags_body)
      | POST url body \<Rightarrow>
          if url = ''http://localhost:11434/api/chat''
          then Response 200 (Inr example_chat_body)
          else Response 200 (Inr example_completion_body))"

definition test_env :: env where
  "test_env =
     \<lparr>OLLAMA_HOST = ''http://localhost:11434'',
      json_loads = test_loads,
      json_dumps = test_dumps,
      clock = (\<lambda>n. 1700000000 + int n),
      uuid4_hex = (\<lambda>n. ''9f1c2ab47d3e4f60a1b2c3d4e5f60718''),
      backend = test_backend,
      float_add = test_float_add,
      float_of_int = (\<lambda>n. Inr (Finite (of_int n)))\<rparr>"

definition w0 :: world where
  "w0 = \<lparr>clock_reads = 0, uuids_minted = 0, sent = []\<rparr>"

definition chat_rq :: ChatCompletionRequest where
  "chat_rq =
     \<lparr>ChatCompletionRequest.model = ''qwen2.5:7b'',
      messages = [\<lparr>role = ''user'', content = ''Hello''\<rparr>],
      ChatCompletionRequest.temperature = Finite 0.7,
      ChatCompletionRequest.max_tokens = Some 128,
      ChatCompletionRequest.stream = False\<rparr>"

definition completion_rq :: CompletionRequest where
  "completion_rq =
     \<lparr>model = ''qwen2.5:7b'', prompt = ''Once'',
      temperature = Finite 0.7, max_tokens = Some 0, stream = False\<rparr>"

definition error_env :: env where
  "error_env = test_env\<lparr>backend :=
     (\<lambda>n rq. Response 404 (Inr (PyDict [(''error'', PyStr ''model not found'')])))\<rparr>"

definition no_content_env :: env where
  "no_content_env = test_env\<lparr>backend :=
     (\<lambda>n rq. Response 200 (Inr (PyDict [(''message'', PyDict [(''role'', PyStr ''assistant'')]),
                                        (''done'', PyBool True)])))\<rparr>"

text \<open>Further fixtures: the entry that \<^verbatim>\<open>list_models\<close> builds for a model, the reply to
  the two-model listing, and backends that answer with an error.\<close>

definition model_entry :: "py \<Rightarrow> int \<Rightarrow> py" where
  "model_entry name created =
     PyDict [(''id'', name), (''object'', PyStr ''model''), (''created'', PyInt created),
             (''owned_by'', PyStr ''ollama'')]"

definition example_models_reply :: py where
  "example_models_reply =
     PyDict [(''object'', PyStr ''list''),
       (''data'', PyList
          [PyDict [(''id'', PyStr ''qwen2.5:7b''), (''object'', PyStr ''model''),
                   (''created'', PyInt 1700000000), (''owned_by'', PyStr ''ollama'')],
           PyDict [(''id'', PyStr ''llama3:8b''), (''object'', PyStr ''model''),
                   (''created'', PyInt 1700000001), (''owned_by'', PyStr ''ollama'')]])]"

definition unhealthy_env :: env where
  "unhealthy_env = test_env\<lparr>backend :=
     (\<lambda>n rq. Response 500 (Inr (PyDict [(''error'', PyStr ''internal error'')])))\<rparr>"

section \<open>The id and the first world of a stream\<close>

text \<open>
  Both generators mint their id before the loop, from the next uuid, and then open
  the request; \<open>stream_start\<close> is the world in which the first line is read.
\<close>

definition chat_request_id :: "env \<Rightarrow> world \<Rightarrow> string" where
  "chat_request_id E w = ''chatcmpl-'' @ take 8 (uuid4_hex E (uuids_minted w))"

definition completion_request_id :: "env \<Rightarrow> world \<Rightarrow> string" where
  "completion_request_id E w = ''cmpl-'' @ take 8 (uuid4_hex E (uuids_minted w))"

definition stream_start :: "world \<Rightarrow> request \<Rightarrow> world" where
  "stream_start w rq = w\<lparr>uuids_minted := Suc (uuids_minted w), sent := sent w @ [rq]\<rparr>"

text \<open>
  A frame carries the id \<open>rid\<close> when it is the sentinel, which has no id, or the frame
  of a chunk whose \<open>id\<close> is \<open>rid\<close>. A piece of generator code keeps the id when all its
  frames carry it and it leaves the count of minted uuids at \<open>n\<close>.
\<close>

definition carries_id :: "env \<Rightarrow> string \<Rightarrow> string \<Rightarrow> bool" where
  "carries_id E rid f =
     (f = done_frame \<or> (\<exists>chunk. f = sse_frame E chunk \<and> py_at chunk [K ''id''] = Some (PyStr rid)))"

definition keeps_id :: "env \<Rightarrow> string \<Rightarrow> nat \<Rightarrow> gen_result \<Rightarrow> bool" where
  "keeps_id E rid n r =
     ((\<forall>f\<in>set (fst r). carries_id E rid f) \<and> uuids_minted (snd (snd r)) = n)"

text \<open>The backend requests of the two fixture requests with \<open>stream\<close> set.\<close>

definition chat_stream_request :: py where
  "chat_stream_request = chat_ollama_request (chat_rq\<lparr>ChatCompletionRequest.stream := True\<rparr>)"

definition completion_stream_request :: py where
  "completion_stream_request =
     completion_ollama_request (completion_rq\<lparr>CompletionRequest.stream := True\<rparr>)"

section \<open>Request translation: the options of the backend request\<close>

text \<open>
  Claim C3. For every chat request and every completion request, the backend request
  carries \<open>stream\<close> and \<open>options.temperature\<close> unchanged; \<open>options.num_predict\<close> is a
  key of it exactly when \<open>max_tokens\<close> is present and not 0, and then holds
  \<open>max_tokens\<close>; when \<open>max_tokens\<close> is absent or 0 the options are the temperature
  alone, so the key is absent rather than null.
\<close>

theorem request_translation:
  "py_at (chat_ollama_request c) [K ''stream''] = Some (PyBool (ChatCompletionRequest.stream c))
   \<and> py_at (chat_ollama_request c) [K ''options'', K ''temperature'']
       = Some (PyFloat (ChatCompletionRequest.temperature c))
   \<and> ((py_at (chat_ollama_request c) [K ''options'', K ''num_predict''] \<noteq> None)
        = (\<exists>n. ChatCompletionRequest.max_tokens c = Some n \<and> n \<noteq> 0))
   \<and> (\<forall>n. ChatCompletionRequest.max_tokens c = Some n \<and> n \<noteq> 0 \<longrightarrow>
         py_at (chat_ollama_request c) [K ''options'', K ''num_predict''] = Some (PyInt n))
   \<and> (ChatCompletionRequest.max_tokens c = None \<or> ChatCompletionRequest.max_tokens c = Some 0 \<longrightarrow>
         py_at (chat_ollama_request c) [K ''options'']
           = Some (PyDict [(''temperature'', PyFloat (ChatCompletionRequest.temperature c))]))
   \<and> py_at (completion_ollama_request p) [K ''stream''] = Some (PyBool (CompletionRequest.stream p))
   \<and> py_at (completion_ollama_request p) [K ''options'', K ''temperature'']
       = Some (PyFloat (CompletionRequest.temperature p))
   \<and> ((py_at (completion_ollama_request p) [K ''options'', K ''num_predict''] \<noteq> None)
        = (\<exists>n. CompletionRequest.max_tokens p = Some n \<and> n \<noteq> 0))
   \<and> (\<forall>n. CompletionRequest.max_tokens p = Some n \<and> n \<noteq> 0 \<longrightarrow>
         py_at (completion_ollama_request p) [K ''options'', K ''num_predict''] = Some (PyInt n))
   \<and> (CompletionRequest.max_tokens p = None \<or> CompletionRequest.max_tokens p = Some 0 \<longrightarrow>
         py_at (completion_ollama_request p) [K ''options'']
           = Some (PyDict [(''temperature'', PyFloat (CompletionRequest.temperature p))]))"
  by (auto simp add: chat_ollama_request_def completion_ollama_request_def set_num_predict_def
      split: option.splits)

theorem request_translation_witness:
  "ChatCompletionRequest.max_tokens chat_rq = Some 128
   \<and> py_at (chat_ollama_request chat_rq) [K ''options'', K ''num_predict''] = Some (PyInt 128)
   \<and> CompletionRequest.max_tokens completion_rq = Some 0
   \<and> py_at (completion_ollama_request completion_rq) [K ''options'']
       = Some (PyDict [(''temperature'', PyFloat (Finite 0.7))])"
  using request_translation [of chat_rq completion_rq]
  by (simp add: chat_rq_def completion_rq_def)

text \<open>Both backend requests carry the model under the key that the generators read.\<close>

lemma chat_request_has_model:
  "py_getitem (chat_ollama_request c) ''model'' = Inr (PyStr (ChatCompletionRequest.model c))"
  by (simp add: chat_ollama_request_def)

lemma completion_request_has_model:
  "py_getitem (completion_ollama_request c) ''model'' = Inr (PyStr (CompletionRequest.model c))"
  by (simp add: completion_ollama_request_def)

section \<open>Non-streaming replies\<close>

text \<open>What a successful translation has read from the backend's reply.\<close>

lemma py_getitem_Inr: "py_getitem v k = Inr x \<Longrightarrow> py_at v [K k] = Some x"
  by (cases v) (auto split: option.splits)

lemma py_getitem_at: "py_getitem v k = Inr x \<Longrightarrow> py_at v (K k # ks) = py_at x ks"
  by (cases v) (auto split: option.splits)

lemma py_get_counter: "py_get v k (PyInt 0) = Inr x \<Longrightarrow> x = counter v k"
  by (cases v) (auto simp: counter_def split: option.splits)

lemma bind_exn_Inr_iff: "(bind_exn r f = Inr y) = (\<exists>x. r = Inr x \<and> f x = Inr y)"
  by (cases r) (auto simp: bind_exn_def)

lemma chat_response_Inr:
  assumes "chat_response E rid t m body = Inr r"
  shows "\<exists>v total. py_at body [K ''message'', K ''content''] = Some v
           \<and> py_add E (counter body ''prompt_eval_count'') (counter body ''eval_count'') = Inr total
           \<and> py_at r [K ''choices'', I 0, K ''message'', K ''content''] = Some v
           \<and> py_at r [K ''choices'', I 0, K ''finish_reason''] = Some (PyStr ''stop'')
           \<and> py_at r [K ''usage'', K ''prompt_tokens''] = Some (counter body ''prompt_eval_count'')
           \<and> py_at r [K ''usage'', K ''completion_tokens''] = Some (counter body ''eval_count'')
           \<and> py_at r [K ''usage'', K ''total_tokens''] = Some total"
proof -
  from assms obtain message v p c total where
    m: "py_getitem body ''message'' = Inr message" and v: "py_getitem message ''content'' = Inr v"
    and p: "py_get body ''prompt_eval_count'' (PyInt 0) = Inr p"
    and c: "py_get body ''eval_count'' (PyInt 0) = Inr c"
    and tot: "py_add E p c = Inr total"
    and r: "py_at r [K ''choices'', I 0, K ''message'', K ''content''] = Some v"
       "py_at r [K ''choices'', I 0, K ''finish_reason''] = Some (PyStr ''stop'')"
       "py_at r [K ''usage'', K ''prompt_tokens''] = Some p"
       "py_at r [K ''usage'', K ''completion_tokens''] = Some c"
       "py_at r [K ''usage'', K ''total_tokens''] = Some total"
    unfolding chat_response_def bind_exn_Inr_iff by auto
  have "py_at body [K ''message'', K ''content''] = Some v"
    using py_getitem_at [OF m, of "[K ''content'']"] py_getitem_Inr [OF v] by simp
  moreover have "p = counter body ''prompt_eval_count''" "c = counter body ''eval_count''"
    using p c by (auto dest: py_get_counter)
  ultimately show ?thesis using tot r by simp
qed

lemma completion_response_Inr:
  assumes "completion_response E rid t m body = Inr r"
  shows "\<exists>v total. py_at body [K ''response''] = Some v
           \<and> py_add E (counter body ''prompt_eval_count'') (counter body ''eval_count'') = Inr total
           \<and> py_at r [K ''choices'', I 0, K ''text''] = Some v
           \<and> py_at r [K ''choices'', I 0, K ''finish_reason''] = Some (PyStr ''stop'')
           \<and> py_at r [K ''usage'', K ''prompt_tokens''] = Some (counter body ''prompt_eval_count'')
           \<and> py_at r [K ''usage'', K ''completion_tokens''] = Some (counter body ''eval_count'')
           \<and> py_at r [K ''usage'', K ''total_tokens''] = Some total"
proof -
  from assms obtain v p c total where
    v: "py_getitem body ''response'' = Inr v"
    and p: "py_get body ''prompt_eval_count'' (PyInt 0) = Inr p"
    and c: "py_get body ''eval_count'' (PyInt 0) = Inr c"
    and tot: "py_add E p c = Inr total"
    and r: "py_at r [K ''choices'', I 0, K ''text''] = Some v"
       "py_at r [K ''choices'', I 0, K ''finish_reason''] = Some (PyStr ''stop'')"
       "py_at r [K ''usage'', K ''prompt_tokens''] = Some p"
       "py_at r [K ''usage'', K ''completion_tokens''] = Some c"
       "py_at r [K ''usage'', K ''total_tokens''] = Some total"
    unfolding completion_response_def bind_exn_Inr_iff by auto
  have "p = counter body ''prompt_eval_count''" "c = counter body ''eval_count''"
    using p c by (auto dest: py_get_counter)
  then show ?thesis using py_getitem_Inr [OF v] tot r by simp
qed

text \<open>A reply with the content and with integer counters, present or not, always
  translates.\<close>

lemma chat_response_wellformed:
  "map_of kvs ''message'' = Some (PyDict inner) \<Longrightarrow> map_of inner ''content'' = Some v
   \<Longrightarrow> counter (PyDict kvs) ''prompt_eval_count'' = PyInt a
   \<Longrightarrow> counter (PyDict kvs) ''eval_count'' = PyInt b
   \<Longrightarrow> \<exists>x. chat_response E rid t m (PyDict kvs) = Inr x
         \<and> py_at x [K ''choices'', I 0, K ''message'', K ''content''] = Some v
         \<and> py_at x [K ''choices'', I 0, K ''finish_reason''] = Some (PyStr ''stop'')
         \<and> py_at x [K ''usage'', K ''total_tokens''] = Some (PyInt (a + b))"
  by (auto simp: chat_response_def bind_exn_def counter_def py_add_def split: option.splits)

lemma completion_response_wellformed:
  "map_of kvs ''response'' = Some v
   \<Longrightarrow> counter (PyDict kvs) ''prompt_eval_count'' = PyInt a
   \<Longrightarrow> counter (PyDict kvs) ''eval_count'' = PyInt b
   \<Longrightarrow> \<exists>x. completion_response E rid t m (PyDict kvs) = Inr x
         \<and> py_at x [K ''choices'', I 0, K ''text''] = Some v
         \<and> py_at x [K ''choices'', I 0, K ''finish_reason''] = Some (PyStr ''stop'')
         \<and> py_at x [K ''usage'', K ''total_tokens''] = Some (PyInt (a + b))"
  by (auto simp: completion_response_def bind_exn_def counter_def py_add_def split: option.splits)

lemma or_500_Return: "or_500 x = Return r \<Longrightarrow> x = Inr r"
  by (cases x) (auto simp: or_500_def)

lemma chat_completions_Return:
  assumes "\<not> ChatCompletionRequest.stream c" and "fst (chat_completions E w c) = Return r"
  shows "\<exists>status body rid t.
           backend E (length (sent w)) (POST (OLLAMA_HOST E @ ''/api/chat'') (chat_ollama_request c))
             = Response status (Inr body)
           \<and> chat_response E rid t (ChatCompletionRequest.model c) body = Inr r"
  using assms
  by (auto simp: chat_completions_def chat_reply_def send_def Let_def
      split: reply.splits sum.splits prod.splits dest: or_500_Return)

lemma completions_Return:
  assumes "\<not> CompletionRequest.stream c" and "fst (completions E w c) = Return r"
  shows "\<exists>status body rid t.
           backend E (length (sent w)) (POST (OLLAMA_HOST E @ ''/api/generate'') (completion_ollama_request c))
             = Response status (Inr body)
           \<and> completion_response E rid t (CompletionRequest.model c) body = Inr r"
  using assms
  by (auto simp: completions_def completion_reply_def send_def Let_def
      split: reply.splits sum.splits prod.splits dest: or_500_Return)


text \<open>
  Claim C4. Whenever a non-streaming chat (or completion) call returns a reply, the
  backend answered with a body whose \<open>message.content\<close> (or \<open>response\<close>) is the content
  (or text) of the first choice; the finish reason of that choice is "stop" whatever
  the backend said; and \<open>usage.total_tokens\<close> is \<^verbatim>\<open>+\<close> applied to the two counters,
  each read as 0 when missing. A reply object that has the content and whose counters,
  so read, are integers always translates, with the sum of the two as total. The reply
  \<^verbatim>\<open>{message: {content: "hi"}, prompt_eval_count: 3, eval_count: 5}\<close> translates to
  content "hi" and 8 total tokens.
\<close>

theorem non_streaming_translation:
  "(\<not> ChatCompletionRequest.stream c \<and> fst (chat_completions E w c) = Return r \<longrightarrow>
      (\<exists>status body v total.
         backend E (length (sent w)) (POST (OLLAMA_HOST E @ ''/api/chat'') (chat_ollama_request c))
           = Response status (Inr body)
         \<and> py_at body [K ''message'', K ''content''] = Some v
         \<and> py_at r [K ''choices'', I 0, K ''message'', K ''content''] = Some v
         \<and> py_at r [K ''choices'', I 0, K ''finish_reason''] = Some (PyStr ''stop'')
         \<and> py_add E (counter body ''prompt_eval_count'') (counter body ''eval_count'') = Inr total
         \<and> py_at r [K ''usage'', K ''total_tokens''] = Some total))
   \<and> (\<not> CompletionRequest.stream p \<and> fst (completions E w p) = Return r' \<longrightarrow>
      (\<exists>status body v total.
         backend E (length (sent w)) (POST (OLLAMA_HOST E @ ''/api/generate'') (completion_ollama_request p))
           = Response status (Inr body)
         \<and> py_at body [K ''response''] = Some v
         \<and> py_at r' [K ''choices'', I 0, K ''text''] = Some v
         \<and> py_at r' [K ''choices'', I 0, K ''finish_reason''] = Some (PyStr ''stop'')
         \<and> py_add E (counter body ''prompt_eval_count'') (counter body ''eval_count'') = Inr total
         \<and> py_at r' [K ''usage'', K ''total_tokens''] = Some total))
   \<and> (map_of kvs ''message'' = Some (PyDict inner) \<and> map_of inner ''content'' = Some v
       \<and> counter (PyDict kvs) ''prompt_eval_count'' = PyInt a
       \<and> counter (PyDict kvs) ''eval_count'' = PyInt b \<longrightarrow>
      (\<exists>x. chat_response E rid t m (PyDict kvs) = Inr x
         \<and> py_at x [K ''choices'', I 0, K ''message'', K ''content''] = Some v
         \<and> py_at x [K ''choices'', I 0, K ''finish_reason''] = Some (PyStr ''stop'')
         \<and> py_at x [K ''usage'', K ''total_tokens''] = Some (PyInt (a + b))))
   \<and> (map_of kvs ''response'' = Some v
       \<and> counter (PyDict kvs) ''prompt_eval_count'' = PyInt a
       \<and> counter (PyDict kvs) ''eval_count'' = PyInt b \<longrightarrow>
      (\<exists>x. completion_response E rid t m (PyDict kvs) = Inr x
         \<and> py_at x [K ''choices'', I 0, K ''text''] = Some v
         \<and> py_at x [K ''choices'', I 0, K ''finish_reason''] = Some (PyStr ''stop'')
         \<and> py_at x [K ''usage'', K ''total_tokens''] = Some (PyInt (a + b))))
   \<and> (\<exists>x. chat_response E rid t m example_chat_body = Inr x
         \<and> py_at x [K ''choices'', I 0, K ''message'', K ''content''] = Some (PyStr ''hi'')
         \<and> py_at x [K ''usage'', K ''total_tokens''] = Some (PyInt 8))"
proof (intro conjI impI)
  assume "\<not> ChatCompletionRequest.stream c \<and> fst (chat_completions E w c) = Return r"
  then obtain status body rid t where
    b: "backend E (length (sent w)) (POST (OLLAMA_HOST E @ ''/api/chat'') (chat_ollama_request c))
             = Response status (Inr body)"
    and r: "chat_response E rid t (ChatCompletionRequest.model c) body = Inr r"
    using chat_completions_Return by blast
  from chat_response_Inr [OF r] b show "\<exists>status body v total.
         backend E (length (sent w)) (POST (OLLAMA_HOST E @ ''/api/chat'') (chat_ollama_request c))
           = Response status (Inr body)
         \<and> py_at body [K ''message'', K ''content''] = Some v
         \<and> py_at r [K ''choices'', I 0, K ''message'', K ''content''] = Some v
         \<and> py_at r [K ''choices'', I 0, K ''finish_reason''] = Some (PyStr ''stop'')
         \<and> py_add E (counter body ''prompt_eval_count'') (counter body ''eval_count'') = Inr total
         \<and> py_at r [K ''usage'', K ''total_tokens''] = Some total"
    by blast
next
  assume "\<not> CompletionRequest.stream p \<and> fst (completions E w p) = Return r'"
  then obtain status body rid t where
    b: "backend E (length (sent w)) (POST (OLLAMA_HOST E @ ''/api/generate'') (completion_ollama_request p))
             = Response status (Inr body)"
    and r: "completion_response E rid t (CompletionRequest.model p) body = Inr r'"
    using completions_Return by blast
  from completion_response_Inr [OF r] b show "\<exists>status body v total.
         backend E (length (sent w)) (POST (OLLAMA_HOST E @ ''/api/generate'') (completion_ollama_request p))
           = Response status (Inr body)
         \<and> py_at body [K ''response''] = Some v
         \<and> py_at r' [K ''choices'', I 0, K ''text''] = Some v
         \<and> py_at r' [K ''choices'', I 0, K ''finish_reason''] = Some (PyStr ''stop'')
         \<and> py_add E (counter body ''prompt_eval_count'') (counter body ''eval_count'') = Inr total
         \<and> py_at r' [K ''usage'', K ''total_tokens''] = Some total"
    by blast
next
  assume "map_of kvs ''message'' = Some (PyDict inner) \<and> map_of inner ''content'' = Some v
       \<and> counter (PyDict kvs) ''prompt_eval_count'' = PyInt a
       \<and> counter (PyDict kvs) ''eval_count'' = PyInt b"
  then show "\<exists>x. chat_response E rid t m (PyDict kvs) = Inr x
         \<and> py_at x [K ''choices'', I 0, K ''message'', K ''content''] = Some v
         \<and> py_at x [K ''choices'', I 0, K ''finish_reason''] = Some (PyStr ''stop'')
         \<and> py_at x [K ''usage'', K ''total_tokens''] = Some (PyInt (a + b))"
    using chat_response_wellformed by blast
next
  assume "map_of kvs ''response'' = Some v
       \<and> counter (PyDict kvs) ''prompt_eval_count'' = PyInt a
       \<and> counter (PyDict kvs) ''eval_count'' = PyInt b"
  then show "\<exists>x. completion_response E rid t m (PyDict kvs) = Inr x
         \<and> py_at x [K ''choices'', I 0, K ''text''] = Some v
         \<and> py_at x [K ''choices'', I 0, K ''finish_reason''] = Some (PyStr ''stop'')
         \<and> py_at x [K ''usage'', K ''total_tokens''] = Some (PyInt (a + b))"
    using completion_response_wellformed by blast
next
  show "\<exists>x. chat_response E rid t m example_chat_body = Inr x
         \<and> py_at x [K ''choices'', I 0, K ''message'', K ''content''] = Some (PyStr ''hi'')
         \<and> py_at x [K ''usage'', K ''total_tokens''] = Some (PyInt 8)"
    by (simp add: chat_response_def example_chat_body_def bind_exn_def py_add_def)
qed

theorem non_streaming_translation_witness:
  "\<not> ChatCompletionRequest.stream chat_rq
   \<and> (\<exists>r. fst (chat_completions test_env w0 chat_rq) = Return r
         \<and> py_at r [K ''choices'', I 0, K ''message'', K ''content''] = Some (PyStr ''hi'')
         \<and> py_at r [K ''choices'', I 0, K ''finish_reason''] = Some (PyStr ''stop'')
         \<and> py_at r [K ''usage'', K ''total_tokens''] = Some (PyInt 8))
   \<and> \<not> CompletionRequest.stream completion_rq
   \<and> (\<exists>r. fst (completions test_env w0 completion_rq) = Return r
         \<and> py_at r [K ''choices'', I 0, K ''text''] = Some (PyStr ''hi'')
         \<and> py_at r [K ''usage'', K ''total_tokens''] = Some (PyInt 8))
   \<and> counter example_chat_body ''prompt_eval_count'' = PyInt 3
   \<and> counter example_chat_body ''eval_count'' = PyInt 5
   \<and> (\<exists>x. chat_response test_env ''chatcmpl-9f1c2ab4'' 1700000000 ''qwen2.5:7b'' example_chat_body
              = Inr x
         \<and> py_at x [K ''usage'', K ''total_tokens''] = Some (PyInt (3 + 5)))
   \<and> counter example_completion_body ''prompt_eval_count'' = PyInt 3
   \<and> counter example_completion_body ''eval_count'' = PyInt 5
   \<and> (\<exists>x. completion_response test_env ''cmpl-9f1c2ab4'' 1700000000 ''qwen2.5:7b''
                example_completion_body = Inr x
         \<and> py_at x [K ''usage'', K ''total_tokens''] = Some (PyInt (3 + 5)))"
proof -
  have c: "\<not> ChatCompletionRequest.stream chat_rq" and p: "\<not> CompletionRequest.stream completion_rq"
    by (simp_all add: chat_rq_def completion_rq_def)
  obtain r where r: "fst (chat_completions test_env w0 chat_rq) = Return r"
    by (simp add: chat_completions_def chat_reply_def send_def new_uuid_hex_def time_now_def
        or_500_def bind_exn_def chat_response_def py_add_def Let_def test_env_def
        test_backend_def example_chat_body_def chat_rq_def w0_def)
  obtain r' where r': "fst (completions test_env w0 completion_rq) = Return r'"
    by (simp add: completions_def completion_reply_def send_def new_uuid_hex_def time_now_def
        or_500_def bind_exn_def completion_response_def py_add_def Let_def test_env_def
        test_backend_def example_completion_body_def completion_rq_def w0_def)
  have k: "counter example_chat_body ''prompt_eval_count'' = PyInt 3"
    "counter example_chat_body ''eval_count'' = PyInt 5"
    "counter example_completion_body ''prompt_eval_count'' = PyInt 3"
    "counter example_completion_body ''eval_count'' = PyInt 5"
    by (simp_all add: counter_def example_chat_body_def example_completion_body_def)
  have handlers: "(\<exists>r. fst (chat_completions test_env w0 chat_rq) = Return r
         \<and> py_at r [K ''choices'', I 0, K ''message'', K ''content''] = Some (PyStr ''hi'')
         \<and> py_at r [K ''choices'', I 0, K ''finish_reason''] = Some (PyStr ''stop'')
         \<and> py_at r [K ''usage'', K ''total_tokens''] = Some (PyInt 8))
     \<and> (\<exists>r. fst (completions test_env w0 completion_rq) = Return r
         \<and> py_at r [K ''choices'', I 0, K ''text''] = Some (PyStr ''hi'')
         \<and> py_at r [K ''usage'', K ''total_tokens''] = Some (PyInt 8))"
    using non_streaming_translation [where c = chat_rq and E = test_env and w = w0 and r = r
      and p = completion_rq and r' = r'] c p r r'
    by (auto simp: test_env_def test_backend_def w0_def example_chat_body_def
        example_completion_body_def counter_def py_add_def completion_rq_def)
  have chat: "\<exists>x. chat_response test_env ''chatcmpl-9f1c2ab4'' 1700000000 ''qwen2.5:7b''
                example_chat_body = Inr x
         \<and> py_at x [K ''usage'', K ''total_tokens''] = Some (PyInt (3 + 5))"
    using non_streaming_translation [where E = test_env and rid = "''chatcmpl-9f1c2ab4''"
      and t = 1700000000 and m = "''qwen2.5:7b''" and a = 3 and b = 5
      and kvs = "[(''message'', PyDict [(''content'', PyStr ''hi'')]),
                  (''prompt_eval_count'', PyInt 3), (''eval_count'', PyInt 5)]"
      and inner = "[(''content'', PyStr ''hi'')]" and v = "PyStr ''hi''"] k(1,2)
    unfolding example_chat_body_def by simp blast
  have completion: "\<exists>x. completion_response test_env ''cmpl-9f1c2ab4'' 1700000000 ''qwen2.5:7b''
                example_completion_body = Inr x
         \<and> py_at x [K ''usage'', K ''total_tokens''] = Some (PyInt (3 + 5))"
    using non_streaming_translation [where E = test_env and rid = "''cmpl-9f1c2ab4''"
      and t = 1700000000 and m = "''qwen2.5:7b''" and a = 3 and b = 5
      and kvs = "[(''response'', PyStr ''hi''),
                  (''prompt_eval_count'', PyInt 3), (''eval_count'', PyInt 5)]"
      and v = "PyStr ''hi''"] k(3,4)
    unfolding example_completion_body_def by simp blast
  from c p k handlers chat completion show ?thesis by blast
qed

section \<open>Replies with missing fields\<close>

lemma chat_response_no_message:
  "py_getitem body ''message'' = Inl e \<Longrightarrow> chat_response E rid t m body = Inl e"
  by (simp add: chat_response_def bind_exn_def)

lemma chat_response_no_content:
  "py_getitem body ''message'' = Inr msg \<Longrightarrow> py_getitem msg ''content'' = Inl e
   \<Longrightarrow> chat_response E rid t m body = Inl e"
  by (simp add: chat_response_def bind_exn_def)

lemma completion_response_no_response:
  "py_getitem body ''response'' = Inl e \<Longrightarrow> completion_response E rid t m body = Inl e"
  by (simp add: completion_response_def bind_exn_def)

lemma chat_completions_raises:
  assumes "\<not> ChatCompletionRequest.stream c"
    and "backend E (length (sent w)) (POST (OLLAMA_HOST E @ ''/api/chat'') (chat_ollama_request c))
           = Response status (Inr body)"
    and "\<And>rid t. chat_response E rid t (ChatCompletionRequest.model c) body = Inl e"
  shows "fst (chat_completions E w c) = HTTPException 500 (str_exn e)
         \<and> sent (snd (chat_completions E w c))
             = sent w @ [POST (OLLAMA_HOST E @ ''/api/chat'') (chat_ollama_request c)]"
  using assms
  by (simp add: chat_completions_def chat_reply_def send_def new_uuid_hex_def time_now_def
      or_500_def Let_def)

lemma completions_raises:
  assumes "\<not> CompletionRequest.stream c"
    and "backend E (length (sent w)) (POST (OLLAMA_HOST E @ ''/api/generate'') (completion_ollama_request c))
           = Response status (Inr body)"
    and "\<And>rid t. completion_response E rid t (CompletionRequest.model c) body = Inl e"
  shows "fst (completions E w c) = HTTPException 500 (str_exn e)
         \<and> sent (snd (completions E w c))
             = sent w @ [POST (OLLAMA_HOST E @ ''/api/generate'') (completion_ollama_request c)]"
  using assms
  by (simp add: completions_def completion_reply_def send_def new_uuid_hex_def time_now_def
      or_500_def Let_def)

text \<open>
  Claim C5. When the backend's non-streaming reply is an object without the key
  \<open>message\<close> (chat) or \<open>response\<close> (completion), the handler raises an HTTPException
  with status 500 whose detail is the text of the \<^verbatim>\<open>KeyError\<close>, the key between single
  quotes, and it has sent the one request and no other. More generally, whatever makes
  the subscription raise, the detail is the text of that exception.
\<close>

theorem missing_field_is_500:
  "(\<not> ChatCompletionRequest.stream c
    \<and> backend E (length (sent w)) (POST (OLLAMA_HOST E @ ''/api/chat'') (chat_ollama_request c))
        = Response status (Inr (PyDict kvs))
    \<and> map_of kvs ''message'' = None
    \<longrightarrow> fst (chat_completions E w c) = HTTPException 500 (squote ''message'')
        \<and> sent (snd (chat_completions E w c))
            = sent w @ [POST (OLLAMA_HOST E @ ''/api/chat'') (chat_ollama_request c)])
   \<and> (\<not> CompletionRequest.stream p
    \<and> backend E (length (sent w)) (POST (OLLAMA_HOST E @ ''/api/generate'') (completion_ollama_request p))
        = Response status (Inr (PyDict kvs))
    \<and> map_of kvs ''response'' = None
    \<longrightarrow> fst (completions E w p) = HTTPException 500 (squote ''response'')
        \<and> sent (snd (completions E w p))
            = sent w @ [POST (OLLAMA_HOST E @ ''/api/generate'') (completion_ollama_request p)])
   \<and> (\<not> ChatCompletionRequest.stream c
    \<and> backend E (length (sent w)) (POST (OLLAMA_HOST E @ ''/api/chat'') (chat_ollama_request c))
        = Response status (Inr body)
    \<and> py_getitem body ''message'' = Inl e
    \<longrightarrow> fst (chat_completions E w c) = HTTPException 500 (str_exn e)
        \<and> sent (snd (chat_completions E w c))
            = sent w @ [POST (OLLAMA_HOST E @ ''/api/chat'') (chat_ollama_request c)])
   \<and> (\<not> CompletionRequest.stream p
    \<and> backend E (length (sent w)) (POST (OLLAMA_HOST E @ ''/api/generate'') (completion_ollama_request p))
        = Response status (Inr body)
    \<and> py_getitem body ''response'' = Inl e
    \<longrightarrow> fst (completions E w p) = HTTPException 500 (str_exn e)
        \<and> sent (snd (completions E w p))
            = sent w @ [POST (OLLAMA_HOST E @ ''/api/generate'') (completion_ollama_request p)])"
proof -
  have k: "\<And>k. map_of kvs k = None \<Longrightarrow> py_getitem (PyDict kvs) k = Inl (KeyError k)"
    by simp
  have s: "\<And>k. str_exn (KeyError k) = squote k" by simp
  show ?thesis
    by (intro conjI impI)
      (use chat_completions_raises [OF _ _ chat_response_no_message]
           completions_raises [OF _ _ completion_response_no_response] k s
       in metis)+
qed

theorem missing_field_is_500_witness:
  "fst (chat_completions error_env w0 chat_rq)
     = HTTPException 500 [CHR 0x27, CHR ''m'', CHR ''e'', CHR ''s'', CHR ''s'', CHR ''a'', CHR ''g'', CHR ''e'', CHR 0x27]
   \<and> length (sent (snd (chat_completions error_env w0 chat_rq))) = 1
   \<and> fst (completions error_env w0 completion_rq) = HTTPException 500 (squote ''response'')
   \<and> length (sent (snd (completions error_env w0 completion_rq))) = 1"
  using missing_field_is_500 [of chat_rq error_env w0 404 "[(''error'', PyStr ''model not found'')]"
      completion_rq "PyDict [(''error'', PyStr ''model not found'')]" "KeyError ''message''"]
  by (simp add: error_env_def test_env_def chat_rq_def completion_rq_def w0_def squote_def)

text \<open>
  Claim C9. A non-streaming chat reply whose \<open>message\<close> is an object without the key
  \<open>content\<close> fails in the same way: a 500 whose detail is the text of the
  \<^verbatim>\<open>KeyError\<close> for \<open>content\<close>, after the one request.
\<close>

theorem missing_content_is_500:
  "\<not> ChatCompletionRequest.stream c
   \<and> backend E (length (sent w)) (POST (OLLAMA_HOST E @ ''/api/chat'') (chat_ollama_request c))
       = Response status (Inr (PyDict kvs))
   \<and> map_of kvs ''message'' = Some (PyDict inner)
   \<and> map_of inner ''content'' = None
   \<longrightarrow> fst (chat_completions E w c) = HTTPException 500 (squote ''content'')
       \<and> sent (snd (chat_completions E w c))
           = sent w @ [POST (OLLAMA_HOST E @ ''/api/chat'') (chat_ollama_request c)]"
proof (intro impI)
  assume a: "\<not> ChatCompletionRequest.stream c
   \<and> backend E (length (sent w)) (POST (OLLAMA_HOST E @ ''/api/chat'') (chat_ollama_request c))
       = Response status (Inr (PyDict kvs))
   \<and> map_of kvs ''message'' = Some (PyDict inner)
   \<and> map_of inner ''content'' = None"
  then have "\<And>rid t. chat_response E rid t (ChatCompletionRequest.model c) (PyDict kvs)
               = Inl (KeyError ''content'')"
    by (intro chat_response_no_content [where msg = "PyDict inner"]) simp_all
  from chat_completions_raises [OF _ _ this] a
  show "fst (chat_completions E w c) = HTTPException 500 (squote ''content'')
       \<and> sent (snd (chat_completions E w c))
           = sent w @ [POST (OLLAMA_HOST E @ ''/api/chat'') (chat_ollama_request c)]"
    by simp
qed

theorem missing_content_is_500_witness:
  "fst (chat_completions no_content_env w0 chat_rq) = HTTPException 500 (squote ''content'')
   \<and> length (sent (snd (chat_completions no_content_env w0 chat_rq))) = 1"
  using missing_content_is_500 [of chat_rq no_content_env w0 200
      "[(''message'', PyDict [(''role'', PyStr ''assistant'')]), (''done'', PyBool True)]"
      "[(''role'', PyStr ''assistant'')]"]
  by (simp add: no_content_env_def test_env_def chat_rq_def w0_def)

section \<open>The model listing\<close>

lemma model_entries_Inr:
  "model_entries E w ms = (Inr out, w') \<Longrightarrow>
     length out = length ms
     \<and> clock_reads w' = clock_reads w + length ms
     \<and> (\<forall>i<length ms. \<exists>name. py_getitem (ms ! i) ''name'' = Inr name
            \<and> out ! i = model_entry name (clock E (clock_reads w + i)))"
proof (induction ms arbitrary: w out w')
  case Nil
  then show ?case by simp
next
  case (Cons m rest)
  from Cons.prems obtain name where name: "py_getitem m ''name'' = Inr name"
    by (cases "py_getitem m ''name''") auto
  let ?w1 = "w\<lparr>clock_reads := Suc (clock_reads w)\<rparr>"
  obtain r w2 where rest: "model_entries E ?w1 rest = (r, w2)"
    by (cases "model_entries E ?w1 rest") auto
  from Cons.prems name rest obtain entries where r: "r = Inr entries"
    and out: "out = model_entry name (clock E (clock_reads w)) # entries" and w': "w' = w2"
    by (cases r) (auto simp: time_now_def bind_exn_def model_entry_def)
  from Cons.IH [OF rest [unfolded r]]
  have ih: "length entries = length rest" "clock_reads w2 = Suc (clock_reads w) + length rest"
    "\<forall>i<length rest. \<exists>name. py_getitem (rest ! i) ''name'' = Inr name
            \<and> entries ! i = model_entry name (clock E (Suc (clock_reads w) + i))"
    by simp_all
  have "\<exists>name'. py_getitem ((m # rest) ! i) ''name'' = Inr name'
            \<and> out ! i = model_entry name' (clock E (clock_reads w + i))"
    if "i < length (m # rest)" for i
  proof (cases i)
    case 0
    with name out show ?thesis by simp
  next
    case (Suc j)
    with that ih(3) out show ?thesis by simp
  qed
  with ih out w' show ?case by simp
qed

lemma list_models_Return:
  assumes "fst (list_models E w) = Return r" and "r \<noteq> PyNone"
  shows "\<exists>body mv ms out w2.
           backend E (length (sent w)) (GET (OLLAMA_HOST E @ ''/api/tags'')) = Response 200 (Inr body)
           \<and> py_get body ''models'' (PyList []) = Inr mv \<and> py_iter mv = Inr ms
           \<and> model_entries E (w\<lparr>sent := sent w @ [GET (OLLAMA_HOST E @ ''/api/tags'')]\<rparr>) ms
               = (Inr out, w2)
           \<and> r = PyDict [(''object'', PyStr ''list''), (''data'', PyList out)]"
  using assms
  by (auto simp: list_models_def models_reply_def send_def Let_def bind_exn_def or_500_def
      split: reply.splits sum.splits prod.splits if_splits)

text \<open>
  Claim C8. Whenever \<^verbatim>\<open>GET /v1/models\<close> returns a listing, the backend answered 200,
  and the \<open>data\<close> of the listing has one entry per element of the backend's \<open>models\<close>,
  in the same order: the entry at position \<open>i\<close> has as \<open>id\<close> the \<open>name\<close> of the backend's
  element at position \<open>i\<close>, \<open>object\<close> "model" and \<open>owned_by\<close> "ollama".
\<close>

theorem list_models_maps_names:
  "fst (list_models E w) = Return r \<and> r \<noteq> PyNone \<longrightarrow>
     (\<exists>body mv ms out.
        backend E (length (sent w)) (GET (OLLAMA_HOST E @ ''/api/tags'')) = Response 200 (Inr body)
        \<and> py_get body ''models'' (PyList []) = Inr mv \<and> py_iter mv = Inr ms
        \<and> r = PyDict [(''object'', PyStr ''list''), (''data'', PyList out)]
        \<and> length out = length ms
        \<and> (\<forall>i<length ms. \<exists>name. py_getitem (ms ! i) ''name'' = Inr name
              \<and> out ! i = PyDict [(''id'', name), (''object'', PyStr ''model''),
                                   (''created'', PyInt (clock E (clock_reads w + i))),
                                   (''owned_by'', PyStr ''ollama'')]))"
proof
  assume "fst (list_models E w) = Return r \<and> r \<noteq> PyNone"
  then obtain body mv ms out w2 where
    b: "backend E (length (sent w)) (GET (OLLAMA_HOST E @ ''/api/tags'')) = Response 200 (Inr body)"
       "py_get body ''models'' (PyList []) = Inr mv" "py_iter mv = Inr ms"
    and me: "model_entries E (w\<lparr>sent := sent w @ [GET (OLLAMA_HOST E @ ''/api/tags'')]\<rparr>) ms
               = (Inr out, w2)"
    and r: "r = PyDict [(''object'', PyStr ''list''), (''data'', PyList out)]"
    using list_models_Return by blast
  from model_entries_Inr [OF me] b r
  show "\<exists>body mv ms out.
        backend E (length (sent w)) (GET (OLLAMA_HOST E @ ''/api/tags'')) = Response 200 (Inr body)
        \<and> py_get body ''models'' (PyList []) = Inr mv \<and> py_iter mv = Inr ms
        \<and> r = PyDict [(''object'', PyStr ''list''), (''data'', PyList out)]
        \<and> length out = length ms
        \<and> (\<forall>i<length ms. \<exists>name. py_getitem (ms ! i) ''name'' = Inr name
              \<and> out ! i = PyDict [(''id'', name), (''object'', PyStr ''model''),
                                   (''created'', PyInt (clock E (clock_reads w + i))),
                                   (''owned_by'', PyStr ''ollama'')])"
    unfolding model_entry_def by (intro exI [of _ body] exI [of _ mv] exI [of _ ms] exI [of _ out]) simp
qed


theorem list_models_maps_names_witness:
  "fst (list_models test_env w0) = Return example_models_reply
   \<and> example_models_reply \<noteq> PyNone
   \<and> (\<exists>body mv ms out.
        backend test_env (length (sent w0)) (GET (OLLAMA_HOST test_env @ ''/api/tags''))
          = Response 200 (Inr body)
        \<and> py_get body ''models'' (PyList []) = Inr mv \<and> py_iter mv = Inr ms
        \<and> example_models_reply = PyDict [(''object'', PyStr ''list''), (''data'', PyList out)]
        \<and> length out = length ms
        \<and> (\<forall>i<length ms. \<exists>name. py_getitem (ms ! i) ''name'' = Inr name
              \<and> out ! i = PyDict [(''id'', name), (''object'', PyStr ''model''),
                                   (''created'', PyInt (clock test_env (clock_reads w0 + i))),
                                   (''owned_by'', PyStr ''ollama'')]))"
proof -
  have run: "fst (list_models test_env w0) = Return example_models_reply"
    by (simp add: list_models_def models_reply_def send_def Let_def bind_exn_def or_500_def
        test_env_def test_backend_def example_tags_body_def time_now_def w0_def
        example_models_reply_def)
  moreover have "example_models_reply \<noteq> PyNone"
    by (simp add: example_models_reply_def)
  ultimately show ?thesis
    using list_models_maps_names [of test_env w0 example_models_reply] by blast
qed

section \<open>The health check\<close>

text \<open>
  Claim C2. The claim asks for a 503 whenever the backend answers \<^verbatim>\<open>GET /api/tags\<close>
  with a status other than 200. Run against a backend that answers 500, \<^verbatim>\<open>health\<close>
  raises nothing: it reaches its end and returns \<^verbatim>\<open>None\<close>.
\<close>

theorem health_non_200_returns_none:
  "backend unhealthy_env 0 (GET (OLLAMA_HOST unhealthy_env @ ''/api/tags''))
     = Response 500 (Inr (PyDict [(''error'', PyStr ''internal error'')]))
   \<and> fst (health unhealthy_env w0) = Return PyNone"
  by (simp add: health_def send_def unhealthy_env_def test_env_def w0_def)

text \<open>The three outcomes of the health check in general.\<close>

lemma health_unreachable:
  "backend E (length (sent w)) (GET (OLLAMA_HOST E @ ''/api/tags'')) = Failed e \<Longrightarrow>
     fst (health E w) = HTTPException 503 (''Ollama not available: '' @ str_exn e)"
  by (simp add: health_def send_def)

lemma health_connected:
  "backend E (length (sent w)) (GET (OLLAMA_HOST E @ ''/api/tags'')) = Response 200 body \<Longrightarrow>
     fst (health E w)
       = Return (PyDict [(''status'', PyStr ''healthy''), (''ollama'', PyStr ''connected'')])"
  by (simp add: health_def send_def)

lemma health_other_status:
  "backend E (length (sent w)) (GET (OLLAMA_HOST E @ ''/api/tags'')) = Response status body \<Longrightarrow>
     status \<noteq> 200 \<Longrightarrow> fst (health E w) = Return PyNone"
  by (simp add: health_def send_def)

section \<open>The streaming loop\<close>

text \<open>Each generator is its loop, run from \<open>stream_start\<close> with the id minted there.\<close>

lemma stream_chat_response_loop:
  "stream_chat_response E w rq lines =
     for_each_line (chat_line E (chat_request_id E w) rq)
       (stream_start w (POST (OLLAMA_HOST E @ ''/api/chat'') rq)) lines"
  by (simp add: stream_chat_response_def new_uuid_hex_def chat_request_id_def stream_start_def Let_def)

lemma stream_completion_response_loop:
  "stream_completion_response E w rq lines =
     for_each_line (completion_line E (completion_request_id E w) rq)
       (stream_start w (POST (OLLAMA_HOST E @ ''/api/generate'') rq)) lines"
  by (simp add: stream_completion_response_def new_uuid_hex_def completion_request_id_def
      stream_start_def Let_def)

text \<open>Sequencing is associative with \<open>pass_gen\<close> as unit, so the loop distributes over
  appended input.\<close>

lemma then_gen_pass [simp]: "then_gen ([], None, w) f = f w"
  by (cases "f w") (simp add: then_gen_def)

lemma then_gen_raise [simp]: "then_gen (fs, Some e, w) f = (fs, Some e, w)"
  by (simp add: then_gen_def)

lemma then_gen_assoc:
  "then_gen (then_gen r f) g = then_gen r (\<lambda>w. then_gen (f w) g)"
proof (cases r)
  case (fields fs x w)
  show ?thesis
  proof (cases x)
    case None
    obtain gs y w1 where f: "f w = (gs, y, w1)" by (cases "f w") auto
    show ?thesis
    proof (cases y)
      case None
      obtain hs z w2 where g: "g w1 = (hs, z, w2)" by (cases "g w1") auto
      with fields \<open>x = None\<close> f None show ?thesis by (simp add: then_gen_def)
    next
      case (Some e)
      with fields \<open>x = None\<close> f show ?thesis by (simp add: then_gen_def)
    qed
  next
    case (Some e)
    with fields show ?thesis by simp
  qed
qed

lemma for_each_line_append:
  "for_each_line body w (xs @ ys) =
     then_gen (for_each_line body w xs) (\<lambda>w1. for_each_line body w1 ys)"
  by (induction xs arbitrary: w) (simp_all add: then_gen_assoc)

lemma for_each_line_skip:
  assumes "\<And>w. body w bad = ([], None, w)"
  shows "for_each_line body w (xs @ bad # ys) = for_each_line body w (xs @ ys)"
  by (simp add: for_each_line_append assms)

lemma fst_then_gen_prefix: "\<exists>rest. fst (then_gen r f) = fst r @ rest"
proof (cases r)
  case (fields fs x w)
  then show ?thesis
    by (cases x; cases "f w") (simp_all add: then_gen_def)
qed

lemma for_each_line_frames:
  "fst (for_each_line body w lines) = concat (frames_per_line body w lines)"
proof (induction lines arbitrary: w)
  case Nil
  show ?case by simp
next
  case (Cons line rest)
  obtain fs x w1 where b: "body w line = (fs, x, w1)" by (cases "body w line") auto
  show ?case
  proof (cases x)
    case None
    obtain gs y w2 where r: "for_each_line body w1 rest = (gs, y, w2)"
      by (cases "for_each_line body w1 rest") auto
    from Cons.IH [of w1] r have "gs = concat (frames_per_line body w1 rest)" by simp
    with b None r show ?thesis by (simp add: then_gen_def)
  next
    case (Some e)
    with b show ?thesis by simp
  qed
qed

lemma frames_per_line_nth:
  "length (frames_per_line body w lines) \<le> length lines
   \<and> (\<forall>i<length (frames_per_line body w lines).
        \<exists>wi. frames_per_line body w lines ! i = fst (body wi (lines ! i)))"
proof (induction lines arbitrary: w)
  case Nil
  show ?case by simp
next
  case (Cons line rest)
  obtain fs x w1 where b: "body w line = (fs, x, w1)" by (cases "body w line") auto
  have hd: "fs = fst (body w line)" using b by simp
  show ?case
  proof (cases x)
    case None
    from b None have fpl: "frames_per_line body w (line # rest) = fs # frames_per_line body w1 rest"
      by simp
    have "\<exists>wi. frames_per_line body w (line # rest) ! i = fst (body wi ((line # rest) ! i))"
      if "i < length (frames_per_line body w (line # rest))" for i
    proof (cases i)
      case 0
      with fpl hd show ?thesis by auto
    next
      case (Suc j)
      with that fpl Cons.IH [of w1] show ?thesis by simp
    qed
    with fpl Cons.IH [of w1] show ?thesis by simp
  next
    case (Some e)
    with b have fpl: "frames_per_line body w (line # rest) = [fs]" by simp
    with hd show ?thesis by auto
  qed
qed

lemma chat_line_malformed:
  "json_loads E bad = Inl (JSONDecodeError m) \<Longrightarrow> chat_line E rid rq w bad = ([], None, w)"
  by (simp add: chat_line_def except_JSONDecodeError_def raise_gen_def pass_gen_def)

lemma completion_line_malformed:
  "json_loads E bad = Inl (JSONDecodeError m) \<Longrightarrow> completion_line E rid rq w bad = ([], None, w)"
  by (simp add: completion_line_def except_JSONDecodeError_def raise_gen_def pass_gen_def)

lemmas line_defs = chat_line_def completion_line_def chat_chunk_frames_def
  completion_chunk_frames_def yield_chat_content_def yield_chat_final_def
  yield_completion_text_def except_JSONDecodeError_def then_gen_def raise_gen_def pass_gen_def
  bind_exn_def time_now_def Let_def

lemmas fixture_defs = test_env_def test_loads_def test_dumps_def w0_def chat_rq_def
  completion_rq_def chat_stream_request_def completion_stream_request_def
  line_hi_def line_done_def line_done_only_def line_text_def line_text_done_def dquote_def
  chat_ollama_request_def completion_ollama_request_def set_num_predict_def
  sse_frame_def done_frame_def chat_content_chunk_def chat_final_chunk_def completion_chunk_def
  chat_request_id_def completion_request_id_def stream_start_def

text \<open>
  Claim C6. A line on which \<^verbatim>\<open>json.loads\<close> raises \<^verbatim>\<open>JSONDecodeError\<close> yields no frame,
  raises nothing and leaves the world as it was, in both translators; so a stream with
  such a line anywhere in it gives exactly the frames, the outcome and the world of
  the stream without that line: its neighbours keep their frames and their order.
\<close>

theorem malformed_line_dropped:
  "json_loads E bad = Inl (JSONDecodeError m) \<longrightarrow>
     chat_line E rid rq w bad = ([], None, w)
     \<and> completion_line E rid rq w bad = ([], None, w)
     \<and> stream_chat_response E w rq (xs @ bad # ys) = stream_chat_response E w rq (xs @ ys)
     \<and> stream_completion_response E w rq (xs @ bad # ys)
         = stream_completion_response E w rq (xs @ ys)"
  by (simp add: stream_chat_response_loop stream_completion_response_loop for_each_line_skip
      chat_line_malformed completion_line_malformed)

theorem malformed_line_dropped_witness:
  "json_loads test_env ''not-json''
     = Inl (JSONDecodeError ''Expecting value: line 1 column 1 (char 0)'')
   \<and> stream_chat_response test_env w0 chat_stream_request [line_hi, ''not-json'', line_done]
       = stream_chat_response test_env w0 chat_stream_request [line_hi, line_done]
   \<and> stream_completion_response test_env w0 completion_stream_request
         [line_text, ''not-json'', line_text_done]
       = stream_completion_response test_env w0 completion_stream_request [line_text, line_text_done]"
proof -
  have h: "json_loads test_env ''not-json''
     = Inl (JSONDecodeError ''Expecting value: line 1 column 1 (char 0)'')"
    by (simp add: fixture_defs)
  from malformed_line_dropped [of test_env "''not-json''" _ _ _ _ "[line_hi]" "[line_done]"]
       malformed_line_dropped [of test_env "''not-json''" _ _ _ _ "[line_text]" "[line_text_done]"] h
  show ?thesis by simp
qed

text \<open>
  Claim C7. The frames of a stream are the concatenation, in input order, of the frames
  that the loop body yields line by line; the entry for position \<open>i\<close> comes from line
  \<open>i\<close>; and the frames for a sequence of lines are a prefix of the frames for any
  longer sequence, so nothing is held back or reordered across lines.
\<close>

theorem frames_in_line_order:
  "fst (stream_chat_response E w rq lines)
     = concat (frames_per_line (chat_line E (chat_request_id E w) rq)
                 (stream_start w (POST (OLLAMA_HOST E @ ''/api/chat'') rq)) lines)
   \<and> fst (stream_completion_response E w rq lines)
     = concat (frames_per_line (completion_line E (completion_request_id E w) rq)
                 (stream_start w (POST (OLLAMA_HOST E @ ''/api/generate'') rq)) lines)
   \<and> (\<forall>i<length (frames_per_line (chat_line E (chat_request_id E w) rq)
                 (stream_start w (POST (OLLAMA_HOST E @ ''/api/chat'') rq)) lines).
        i < length lines
        \<and> (\<exists>wi. frames_per_line (chat_line E (chat_request_id E w) rq)
                 (stream_start w (POST (OLLAMA_HOST E @ ''/api/chat'') rq)) lines ! i
               = fst (chat_line E (chat_request_id E w) rq wi (lines ! i))))
   \<and> (\<forall>i<length (frames_per_line (completion_line E (completion_request_id E w) rq)
                 (stream_start w (POST (OLLAMA_HOST E @ ''/api/generate'') rq)) lines).
        i < length lines
        \<and> (\<exists>wi. frames_per_line (completion_line E (completion_request_id E w) rq)
                 (stream_start w (POST (OLLAMA_HOST E @ ''/api/generate'') rq)) lines ! i
               = fst (completion_line E (completion_request_id E w) rq wi (lines ! i))))
   \<and> (\<exists>later. fst (stream_chat_response E w rq (lines @ extra))
                 = fst (stream_chat_response E w rq lines) @ later)
   \<and> (\<exists>later. fst (stream_completion_response E w rq (lines @ extra))
                 = fst (stream_completion_response E w rq lines) @ later)"
proof (intro conjI)
  show "\<exists>later. fst (stream_chat_response E w rq (lines @ extra))
                 = fst (stream_chat_response E w rq lines) @ later"
    unfolding stream_chat_response_loop for_each_line_append by (rule fst_then_gen_prefix)
  show "\<exists>later. fst (stream_completion_response E w rq (lines @ extra))
                 = fst (stream_completion_response E w rq lines) @ later"
    unfolding stream_completion_response_loop for_each_line_append by (rule fst_then_gen_prefix)
qed (use frames_per_line_nth for_each_line_frames in
       \<open>auto simp: stream_chat_response_loop stream_completion_response_loop
          intro: less_le_trans\<close>)

theorem frames_in_line_order_witness:
  "frames_per_line (chat_line test_env (chat_request_id test_env w0) chat_stream_request)
       (stream_start w0 (POST (OLLAMA_HOST test_env @ ''/api/chat'') chat_stream_request))
       [line_hi, line_done]
     = [[sse_frame test_env
           (chat_content_chunk ''chatcmpl-9f1c2ab4'' 1700000000 (PyStr ''qwen2.5:7b'') (PyStr ''Hi''))],
        [sse_frame test_env (chat_final_chunk ''chatcmpl-9f1c2ab4'' 1700000001 (PyStr ''qwen2.5:7b'')),
         done_frame]]
   \<and> fst (stream_chat_response test_env w0 chat_stream_request [line_hi, line_done])
     = [sse_frame test_env
           (chat_content_chunk ''chatcmpl-9f1c2ab4'' 1700000000 (PyStr ''qwen2.5:7b'') (PyStr ''Hi'')),
        sse_frame test_env (chat_final_chunk ''chatcmpl-9f1c2ab4'' 1700000001 (PyStr ''qwen2.5:7b'')),
        done_frame]"
proof -
  have per_line: "frames_per_line (chat_line test_env (chat_request_id test_env w0) chat_stream_request)
       (stream_start w0 (POST (OLLAMA_HOST test_env @ ''/api/chat'') chat_stream_request))
       [line_hi, line_done]
     = [[sse_frame test_env
           (chat_content_chunk ''chatcmpl-9f1c2ab4'' 1700000000 (PyStr ''qwen2.5:7b'') (PyStr ''Hi''))],
        [sse_frame test_env (chat_final_chunk ''chatcmpl-9f1c2ab4'' 1700000001 (PyStr ''qwen2.5:7b'')),
         done_frame]]"
    by (simp add: line_defs fixture_defs)
  from frames_in_line_order [of test_env w0 chat_stream_request "[line_hi, line_done]" "[]"] per_line
  show ?thesis by simp
qed

section \<open>The request id within a stream\<close>

lemma keeps_id_pass: "uuids_minted w = n \<Longrightarrow> keeps_id E rid n (pass_gen w)"
  by (simp add: keeps_id_def pass_gen_def)

lemma keeps_id_raise: "uuids_minted w = n \<Longrightarrow> keeps_id E rid n (raise_gen e w)"
  by (simp add: keeps_id_def raise_gen_def)

lemma keeps_id_done: "uuids_minted w = n \<Longrightarrow> keeps_id E rid n ([done_frame], None, w)"
  by (simp add: keeps_id_def carries_id_def)

lemma keeps_id_then_gen:
  assumes "keeps_id E rid n r" and "\<And>w. uuids_minted w = n \<Longrightarrow> keeps_id E rid n (f w)"
  shows "keeps_id E rid n (then_gen r f)"
proof (cases r)
  case (fields fs x w)
  show ?thesis
  proof (cases x)
    case None
    obtain gs y w1 where f: "f w = (gs, y, w1)" by (cases "f w") auto
    from assms(1) fields have "uuids_minted w = n" by (simp add: keeps_id_def)
    from assms(2) [OF this] f assms(1) fields None show ?thesis
      by (auto simp: keeps_id_def then_gen_def)
  next
    case (Some e)
    with fields assms(1) show ?thesis by simp
  qed
qed

lemma keeps_id_except:
  "keeps_id E rid n r \<Longrightarrow> keeps_id E rid n (except_JSONDecodeError r)"
  by (auto simp: keeps_id_def except_JSONDecodeError_def split: prod.splits option.splits exn.splits)

lemma keeps_id_yield_chat_content:
  "uuids_minted w = n \<Longrightarrow> keeps_id E rid n (yield_chat_content E rid rq c w)"
  by (auto simp: keeps_id_def yield_chat_content_def time_now_def carries_id_def
      chat_content_chunk_def split: sum.splits)

lemma keeps_id_yield_chat_final:
  "uuids_minted w = n \<Longrightarrow> keeps_id E rid n (yield_chat_final E rid rq w)"
  by (auto simp: keeps_id_def yield_chat_final_def time_now_def carries_id_def
      chat_final_chunk_def split: sum.splits)

lemma keeps_id_yield_completion_text:
  "uuids_minted w = n \<Longrightarrow> keeps_id E rid n (yield_completion_text E rid rq c w)"
  by (auto simp: keeps_id_def yield_completion_text_def time_now_def carries_id_def
      completion_chunk_def split: sum.splits)

lemma keeps_id_chat_chunk_frames:
  assumes "uuids_minted w = n"
  shows "keeps_id E rid n (chat_chunk_frames E rid rq w chunk)"
  unfolding chat_chunk_frames_def
  by (auto split: sum.splits
      intro!: keeps_id_then_gen keeps_id_pass keeps_id_raise keeps_id_yield_chat_content
        keeps_id_yield_chat_final assms)

lemma keeps_id_completion_chunk_frames:
  assumes "uuids_minted w = n"
  shows "keeps_id E rid n (completion_chunk_frames E rid rq w chunk)"
  unfolding completion_chunk_frames_def
  by (auto split: sum.splits
      intro!: keeps_id_then_gen keeps_id_pass keeps_id_raise keeps_id_done
        keeps_id_yield_completion_text assms)

lemma keeps_id_chat_line:
  "uuids_minted w = n \<Longrightarrow> keeps_id E rid n (chat_line E rid rq w line)"
  unfolding chat_line_def
  by (auto split: sum.splits
      intro!: keeps_id_except keeps_id_pass keeps_id_raise keeps_id_chat_chunk_frames)

lemma keeps_id_completion_line:
  "uuids_minted w = n \<Longrightarrow> keeps_id E rid n (completion_line E rid rq w line)"
  unfolding completion_line_def
  by (auto split: sum.splits
      intro!: keeps_id_except keeps_id_pass keeps_id_raise keeps_id_completion_chunk_frames)

lemma keeps_id_for_each_line:
  assumes "\<And>w line. uuids_minted w = n \<Longrightarrow> keeps_id E rid n (body w line)"
  shows "uuids_minted w = n \<Longrightarrow> keeps_id E rid n (for_each_line body w lines)"
proof (induction lines arbitrary: w)
  case Nil
  then show ?case by (simp add: keeps_id_def)
next
  case (Cons line rest)
  show ?case
    unfolding for_each_line.simps
  proof (rule keeps_id_then_gen)
    show "keeps_id E rid n (body w line)" using Cons.prems by (rule assms)
    show "keeps_id E rid n (for_each_line body w1 rest)" if "uuids_minted w1 = n" for w1
      using that by (rule Cons.IH)
  qed
qed

lemma take_hex:
  "length h = 32 \<Longrightarrow> set h \<subseteq> hex_digits \<Longrightarrow> length (take 8 h) = 8 \<and> set (take 8 h) \<subseteq> hex_digits"
  by (auto dest: in_set_takeD)

text \<open>
  Claim C10. Within one streaming call every frame other than the sentinel is the frame
  of a chunk whose id is the one id of the call; that id is fixed by the world in which
  the call starts, whatever lines follow, and the call mints exactly one uuid. The id
  is \<open>chatcmpl-\<close> (chat) or \<open>cmpl-\<close> (completion) followed by the first 8 characters
  of the uuid's hex form, which are 8 hex digits when that form is 32 hex digits.
\<close>

theorem one_request_id_per_stream:
  "(\<forall>f\<in>set (fst (stream_chat_response E w rq lines)). carries_id E (chat_request_id E w) f)
   \<and> uuids_minted (snd (snd (stream_chat_response E w rq lines))) = Suc (uuids_minted w)
   \<and> (\<forall>f\<in>set (fst (stream_completion_response E w rq lines)).
         carries_id E (completion_request_id E w) f)
   \<and> uuids_minted (snd (snd (stream_completion_response E w rq lines))) = Suc (uuids_minted w)
   \<and> (length (uuid4_hex E (uuids_minted w)) = 32 \<and> set (uuid4_hex E (uuids_minted w)) \<subseteq> hex_digits
        \<longrightarrow> (\<exists>token. chat_request_id E w = ''chatcmpl-'' @ token
                     \<and> completion_request_id E w = ''cmpl-'' @ token
                     \<and> length token = 8 \<and> set token \<subseteq> hex_digits))"
proof -
  have "keeps_id E (chat_request_id E w) (Suc (uuids_minted w)) (stream_chat_response E w rq lines)"
    unfolding stream_chat_response_loop
    by (rule keeps_id_for_each_line) (simp_all add: keeps_id_chat_line stream_start_def)
  moreover
  have "keeps_id E (completion_request_id E w) (Suc (uuids_minted w))
          (stream_completion_response E w rq lines)"
    unfolding stream_completion_response_loop
    by (rule keeps_id_for_each_line) (simp_all add: keeps_id_completion_line stream_start_def)
  ultimately show ?thesis
    using take_hex [of "uuid4_hex E (uuids_minted w)"]
    by (simp add: keeps_id_def chat_request_id_def completion_request_id_def)
qed

theorem one_request_id_per_stream_witness:
  "sse_frame test_env
       (chat_content_chunk ''chatcmpl-9f1c2ab4'' 1700000000 (PyStr ''qwen2.5:7b'') (PyStr ''Hi''))
     \<in> set (fst (stream_chat_response test_env w0 chat_stream_request [line_hi, line_done]))
   \<and> carries_id test_env (chat_request_id test_env w0)
       (sse_frame test_env
          (chat_content_chunk ''chatcmpl-9f1c2ab4'' 1700000000 (PyStr ''qwen2.5:7b'') (PyStr ''Hi'')))
   \<and> sse_frame test_env
       (completion_chunk ''cmpl-9f1c2ab4'' 1700000000 (PyStr ''qwen2.5:7b'') (PyStr ''Hi''))
     \<in> set (fst (stream_completion_response test_env w0 completion_stream_request
                    [line_text, line_text_done]))
   \<and> carries_id test_env (completion_request_id test_env w0)
       (sse_frame test_env
          (completion_chunk ''cmpl-9f1c2ab4'' 1700000000 (PyStr ''qwen2.5:7b'') (PyStr ''Hi'')))
   \<and> length (uuid4_hex test_env (uuids_minted w0)) = 32
   \<and> set (uuid4_hex test_env (uuids_minted w0)) \<subseteq> hex_digits
   \<and> chat_request_id test_env w0 = ''chatcmpl-9f1c2ab4''
   \<and> completion_request_id test_env w0 = ''cmpl-9f1c2ab4''"
proof -
  have a: "sse_frame test_env
       (chat_content_chunk ''chatcmpl-9f1c2ab4'' 1700000000 (PyStr ''qwen2.5:7b'') (PyStr ''Hi''))
     \<in> set (fst (stream_chat_response test_env w0 chat_stream_request [line_hi, line_done]))"
    by (simp add: stream_chat_response_loop line_defs fixture_defs)
  have b: "sse_frame test_env
       (completion_chunk ''cmpl-9f1c2ab4'' 1700000000 (PyStr ''qwen2.5:7b'') (PyStr ''Hi''))
     \<in> set (fst (stream_completion_response test_env w0 completion_stream_request
                    [line_text, line_text_done]))"
    by (simp add: stream_completion_response_loop line_defs fixture_defs)
  have c: "length (uuid4_hex test_env (uuids_minted w0)) = 32"
    "set (uuid4_hex test_env (uuids_minted w0)) \<subseteq> hex_digits"
    "chat_request_id test_env w0 = ''chatcmpl-9f1c2ab4''"
    "completion_request_id test_env w0 = ''cmpl-9f1c2ab4''"
    by (simp_all add: test_env_def w0_def hex_digits_def chat_request_id_def completion_request_id_def)
  from one_request_id_per_stream [of test_env w0 chat_stream_request "[line_hi, line_done]"]
       one_request_id_per_stream [of test_env w0 completion_stream_request "[line_text, line_text_done]"]
       a b c
  show ?thesis by blast
qed

section \<open>The end of a stream\<close>

text \<open>
  Where the terminal frames are produced. A chat line that parses to an object with a
  \<open>message\<close> object and a true \<open>done\<close> yields, after the content frame if the content is
  non-empty, one frame of the terminal chunk (empty delta, finish reason "stop") and
  then the sentinel \<^verbatim>\<open>data: [DONE]\n\n\<close>. A completion line that parses to an object
  with a true \<open>done\<close> yields, after the text frame if there is text, the sentinel. The
  two lines of the specification's example yield exactly three frames: the content
  frame for "Hi", the terminal frame and the sentinel.
\<close>

theorem done_chunk_frames:
  "(line \<noteq> [] \<and> json_loads E line = Inr (PyDict kvs)
    \<and> map_of kvs ''message'' = Some (PyDict inner)
    \<and> map_of kvs ''done'' = Some d \<and> py_truthy d
    \<and> py_getitem rq ''model'' = Inr mv
    \<longrightarrow> (\<exists>before t w'.
          chat_line E rid rq w line
            = (before @ [sse_frame E (chat_final_chunk rid t mv), done_frame], None, w')
          \<and> before = (case map_of inner ''content'' of
                        None \<Rightarrow> []
                      | Some c \<Rightarrow>
                          if py_truthy c
                          then [sse_frame E (chat_content_chunk rid (clock E (clock_reads w)) mv c)]
                          else [])))
   \<and> (line \<noteq> [] \<and> json_loads E line = Inr (PyDict kvs)
    \<and> map_of kvs ''done'' = Some d \<and> py_truthy d
    \<and> py_getitem rq ''model'' = Inr mv
    \<longrightarrow> (\<exists>before w'.
          completion_line E rid rq w line = (before @ [done_frame], None, w')
          \<and> before = (case map_of kvs ''response'' of
                        None \<Rightarrow> []
                      | Some c \<Rightarrow>
                          if py_truthy c
                          then [sse_frame E (completion_chunk rid (clock E (clock_reads w)) mv c)]
                          else [])))
   \<and> (l1 \<noteq> [] \<and> l2 \<noteq> []
    \<and> json_loads E l1 = Inr (PyDict [(''message'', PyDict [(''content'', PyStr ''Hi'')])])
    \<and> json_loads E l2
        = Inr (PyDict [(''done'', PyBool True), (''message'', PyDict [(''content'', PyStr [])])])
    \<and> py_getitem rq ''model'' = Inr mv
    \<longrightarrow> fst (stream_chat_response E w rq [l1, l2])
          = [sse_frame E (chat_content_chunk (chat_request_id E w) (clock E (clock_reads w)) mv
                            (PyStr ''Hi'')),
             sse_frame E (chat_final_chunk (chat_request_id E w) (clock E (Suc (clock_reads w))) mv),
             done_frame])"
proof (intro conjI impI)
  assume "line \<noteq> [] \<and> json_loads E line = Inr (PyDict kvs)
    \<and> map_of kvs ''message'' = Some (PyDict inner)
    \<and> map_of kvs ''done'' = Some d \<and> py_truthy d
    \<and> py_getitem rq ''model'' = Inr mv"
  then show "\<exists>before t w'.
          chat_line E rid rq w line
            = (before @ [sse_frame E (chat_final_chunk rid t mv), done_frame], None, w')
          \<and> before = (case map_of inner ''content'' of
                        None \<Rightarrow> []
                      | Some c \<Rightarrow>
                          if py_truthy c
                          then [sse_frame E (chat_content_chunk rid (clock E (clock_reads w)) mv c)]
                          else [])"
    by (auto simp: line_defs split: option.splits)
next
  assume "line \<noteq> [] \<and> json_loads E line = Inr (PyDict kvs)
    \<and> map_of kvs ''done'' = Some d \<and> py_truthy d
    \<and> py_getitem rq ''model'' = Inr mv"
  then show "\<exists>before w'.
          completion_line E rid rq w line = (before @ [done_frame], None, w')
          \<and> before = (case map_of kvs ''response'' of
                        None \<Rightarrow> []
                      | Some c \<Rightarrow>
                          if py_truthy c
                          then [sse_frame E (completion_chunk rid (clock E (clock_reads w)) mv c)]
                          else [])"
    by (auto simp: line_defs split: option.splits)
next
  assume "l1 \<noteq> [] \<and> l2 \<noteq> []
    \<and> json_loads E l1 = Inr (PyDict [(''message'', PyDict [(''content'', PyStr ''Hi'')])])
    \<and> json_loads E l2
        = Inr (PyDict [(''done'', PyBool True), (''message'', PyDict [(''content'', PyStr [])])])
    \<and> py_getitem rq ''model'' = Inr mv"
  then show "fst (stream_chat_response E w rq [l1, l2])
          = [sse_frame E (chat_content_chunk (chat_request_id E w) (clock E (clock_reads w)) mv
                            (PyStr ''Hi'')),
             sse_frame E (chat_final_chunk (chat_request_id E w) (clock E (Suc (clock_reads w))) mv),
             done_frame]"
    by (simp add: stream_chat_response_loop stream_start_def line_defs)
qed

theorem done_chunk_frames_witness:
  "line_hi \<noteq> [] \<and> line_done \<noteq> [] \<and> line_text_done \<noteq> []
   \<and> json_loads test_env line_hi = Inr (PyDict [(''message'', PyDict [(''content'', PyStr ''Hi'')])])
   \<and> json_loads test_env line_done
       = Inr (PyDict [(''done'', PyBool True), (''message'', PyDict [(''content'', PyStr [])])])
   \<and> json_loads test_env line_text_done
       = Inr (PyDict [(''done'', PyBool True), (''response'', PyStr [])])
   \<and> py_getitem chat_stream_request ''model'' = Inr (PyStr ''qwen2.5:7b'')
   \<and> py_getitem completion_stream_request ''model'' = Inr (PyStr ''qwen2.5:7b'')
   \<and> chat_line test_env ''chatcmpl-9f1c2ab4'' chat_stream_request w0 line_done
       = ([sse_frame test_env (chat_final_chunk ''chatcmpl-9f1c2ab4'' 1700000000 (PyStr ''qwen2.5:7b'')),
           done_frame], None, w0\<lparr>clock_reads := 1\<rparr>)
   \<and> completion_line test_env ''cmpl-9f1c2ab4'' completion_stream_request w0 line_text_done
       = ([done_frame], None, w0)
   \<and> fst (stream_chat_response test_env w0 chat_stream_request [line_hi, line_done])
       = [sse_frame test_env
            (chat_content_chunk ''chatcmpl-9f1c2ab4'' 1700000000 (PyStr ''qwen2.5:7b'') (PyStr ''Hi'')),
          sse_frame test_env (chat_final_chunk ''chatcmpl-9f1c2ab4'' 1700000001 (PyStr ''qwen2.5:7b'')),
          done_frame]"
proof -
  have h: "line_hi \<noteq> []" "line_done \<noteq> []" "line_text_done \<noteq> []"
    "json_loads test_env line_hi = Inr (PyDict [(''message'', PyDict [(''content'', PyStr ''Hi'')])])"
    "json_loads test_env line_done
       = Inr (PyDict [(''done'', PyBool True), (''message'', PyDict [(''content'', PyStr [])])])"
    "json_loads test_env line_text_done
       = Inr (PyDict [(''done'', PyBool True), (''response'', PyStr [])])"
    "py_getitem chat_stream_request ''model'' = Inr (PyStr ''qwen2.5:7b'')"
    "py_getitem completion_stream_request ''model'' = Inr (PyStr ''qwen2.5:7b'')"
    by (simp_all add: fixture_defs)
  have k: "chat_request_id test_env w0 = ''chatcmpl-9f1c2ab4''" "clock test_env 0 = 1700000000"
    "clock test_env (Suc 0) = 1700000001" "clock_reads w0 = 0"
    by (simp_all add: chat_request_id_def test_env_def w0_def)
  from done_chunk_frames [where line = line_done and E = test_env
      and kvs = "[(''done'', PyBool True), (''message'', PyDict [(''content'', PyStr [])])]"
      and inner = "[(''content'', PyStr [])]" and d = "PyBool True" and rq = chat_stream_request
      and mv = "PyStr ''qwen2.5:7b''" and rid = "''chatcmpl-9f1c2ab4''" and w = w0
      and ?l1.0 = line_hi and ?l2.0 = line_done]
    done_chunk_frames [where line = line_text_done and E = test_env
      and kvs = "[(''done'', PyBool True), (''response'', PyStr [])]"
      and d = "PyBool True" and rq = completion_stream_request
      and mv = "PyStr ''qwen2.5:7b''" and rid = "''cmpl-9f1c2ab4''" and w = w0]
    h k
  show ?thesis
    by (simp add: line_defs w0_def)
qed

text \<open>
  Claim C1. The claim asks, for every chat chunk with a true \<open>done\<close>, for the terminal
  chunk and the sentinel. In \<^verbatim>\<open>stream_chat_response\<close> the test of \<open>done\<close> sits under
  \<^verbatim>\<open>if "message" in ollama_chunk\<close>: run on the one line \<^verbatim>\<open>{"done":true}\<close>, the chat
  generator ends normally without a single frame, while \<^verbatim>\<open>stream_completion_response\<close>,
  whose test of \<open>done\<close> stands alone, yields the sentinel for the same line.
\<close>

theorem chat_done_without_message_yields_nothing:
  "line_done_only \<noteq> []
   \<and> json_loads test_env line_done_only = Inr (PyDict [(''done'', PyBool True)])
   \<and> py_truthy (PyBool True)
   \<and> fst (stream_chat_response test_env w0 chat_stream_request [line_done_only]) = []
   \<and> fst (snd (stream_chat_response test_env w0 chat_stream_request [line_done_only])) = None
   \<and> done_frame \<notin> set (fst (stream_chat_response test_env w0 chat_stream_request [line_done_only]))
   \<and> fst (stream_completion_response test_env w0 completion_stream_request [line_done_only])
       = [done_frame]"
  by (simp add: stream_chat_response_def stream_completion_response_def new_uuid_hex_def line_defs
      test_env_def test_loads_def line_hi_def line_done_def line_done_only_def dquote_def)

end
